theory Spec2Isabelle
  imports Main
begin

section \<open>The session hub of the chess server\<close>

text \<open>
  A shallow embedding of \<^verbatim>\<open>server/game-server.js\<close>: the WebSocket hub that owns the
  game rooms, seats players, enforces whose turn it is and fans events out.  Each
  handler of the source is a function from the hub state to the new state and the list
  of payloads that were really written to a socket.  The values a handler gets from the
  environment (the identifier drawn by \<^verbatim>\<open>createGameId\<close>, the identity drawn for a new
  connection) are parameters.

  Payload fields are taken at the types the JSDoc typedefs of the source declare
  (strings where it declares strings); JavaScript truthiness of a string is kept:
  an absent field and the empty string are both falsy.
\<close>

subsection \<open>Data model\<close>

type_synonym sock = nat

datatype color = White | Black

datatype status = Waiting | Active | Ended

text \<open>\<^verbatim>\<open>Client\<close>: the per-connection object of the source.\<close>

record client =
  cl_id :: string
  cl_socket :: sock
  cl_name :: "string option"
  cl_color :: "color option"
  cl_gameId :: "string option"
  cl_viewer :: "bool option"

text \<open>\<^verbatim>\<open>MoveData\<close>; \<open>mv_FEN\<close> is the optional resulting position.\<close>

record move_data =
  mv_from :: "nat \<times> nat"
  mv_to :: "nat \<times> nat"
  mv_figure :: string
  mv_FEN :: "string option"

record game_result =
  resultType :: "string option"
  winColor :: "color option"

text \<open>
  \<^verbatim>\<open>Game\<close>.  The two seats \<^verbatim>\<open>players.white\<close> and \<^verbatim>\<open>players.black\<close> hold a copy of the
  client object (the source stores a spread copy), the watchers are a JavaScript
  \<^verbatim>\<open>Set\<close> of sockets, kept here in insertion order.
\<close>

record game =
  g_id :: string
  g_fen :: string
  g_status :: status
  g_white :: "client option"
  g_black :: "client option"
  g_watchers :: "sock list"
  g_moves :: "move_data list"
  g_result :: "game_result option"

text \<open>A parsed inbound JSON object: the fields the handlers read.\<close>

record message =
  m_type :: "string option"
  m_preferredColor :: "string option"
  m_gameId :: "string option"
  m_playerName :: "string option"
  m_result :: "game_result option"
  m_move :: "move_data option"

datatype inbound = Unparseable | Parsed message

record player_info =
  pi_color :: color
  pi_name :: "string option"
  pi_connected :: bool

text \<open>Outbound payloads, one constructor for each \<^verbatim>\<open>type\<close> the hub sends.\<close>

datatype event =
    ErrorEv string
  | Pong
  | Session string "color option" "bool option" string status "player_info list"
      "game_result option"
  | PlayerJoined string "player_info list" status
  | PlayerLeft string "player_info list" status
  | EndedEv string "game_result option" string
  | MoveEv string move_data string color color

type_synonym sends = "(sock \<times> event) list"

text \<open>
  The hub: the \<^verbatim>\<open>games\<close> map, the client object of every live connection (the
  closure variable \<^verbatim>\<open>client\<close> of its handlers) and the sockets whose
  \<^verbatim>\<open>readyState\<close> is \<^verbatim>\<open>OPEN\<close>.
\<close>

record server =
  games :: "string \<rightharpoonup> game"
  clients :: "sock \<rightharpoonup> client"
  open_sockets :: "sock set"

definition init :: server where
  "init = \<lparr>games = Map.empty, clients = Map.empty, open_sockets = {}\<rparr>"

subsection \<open>Pure helpers\<close>

definition START_FEN :: string where
  "START_FEN = ''rnbqkbnr/pppppppp/8/8/8/8/PPPPPPPP/RNBQKBNR w KQkq - 0 1''"

text \<open>
  \<^verbatim>\<open>fen.split(" ")\<close>: every single space separates two fields, so two spaces in a row
  give an empty field, and the result always has at least one field.
\<close>

fun js_split :: "string \<Rightarrow> string list" where
  "js_split [] = [[]]"
| "js_split (c # cs) =
     (if c = CHR '' '' then [] # js_split cs
      else (case js_split cs of [] \<Rightarrow> [[c]] | w # ws \<Rightarrow> (c # w) # ws))"

text \<open>Array indexing: \<^verbatim>\<open>undefined\<close> (here \<open>None\<close>) out of range.\<close>

definition at_index :: "'a list \<Rightarrow> nat \<Rightarrow> 'a option" where
  "at_index xs i = (if i < length xs then Some (xs ! i) else None)"

definition getActiveColorFromFEN :: "string \<Rightarrow> color" where
  "getActiveColorFromFEN fen =
     (if at_index (js_split fen) 1 = Some ''b'' then Black else White)"

definition normalizeColor :: "string option \<Rightarrow> color" where
  "normalizeColor preferred = (if preferred = Some ''black'' then Black else White)"

text \<open>Truthiness of an optional string.\<close>

definition truthy :: "string option \<Rightarrow> bool" where
  "truthy x = (case x of None \<Rightarrow> False | Some v \<Rightarrow> v \<noteq> [])"

definition players :: "game \<Rightarrow> color \<Rightarrow> client option" where
  "players g col = (case col of White \<Rightarrow> g_white g | Black \<Rightarrow> g_black g)"

definition set_player :: "color \<Rightarrow> client option \<Rightarrow> game \<Rightarrow> game" where
  "set_player col p g =
     (case col of White \<Rightarrow> g\<lparr>g_white := p\<rparr> | Black \<Rightarrow> g\<lparr>g_black := p\<rparr>)"

definition both_seated :: "game \<Rightarrow> bool" where
  "both_seated g = (g_white g \<noteq> None \<and> g_black g \<noteq> None)"

text \<open>\<^verbatim>\<open>Set.add\<close> on the watchers.\<close>

definition set_add :: "sock \<Rightarrow> sock list \<Rightarrow> sock list" where
  "set_add k ws = (if k \<in> set ws then ws else ws @ [k])"

definition safeSend :: "server \<Rightarrow> sock \<Rightarrow> event \<Rightarrow> sends" where
  "safeSend s k payload = (if k \<in> open_sockets s then [(k, payload)] else [])"

definition buildPlayers :: "game \<Rightarrow> player_info list" where
  "buildPlayers g =
     map (\<lambda>col. \<lparr>pi_color = col,
                 pi_name = (case players g col of None \<Rightarrow> None | Some p \<Rightarrow> cl_name p),
                 pi_connected = (players g col \<noteq> None)\<rparr>)
       [White, Black]"

definition game_sockets :: "game \<Rightarrow> sock list" where
  "game_sockets g =
     (case g_white g of None \<Rightarrow> [] | Some p \<Rightarrow> [cl_socket p]) @
     (case g_black g of None \<Rightarrow> [] | Some p \<Rightarrow> [cl_socket p]) @
     g_watchers g"

definition broadcast :: "server \<Rightarrow> game \<Rightarrow> event \<Rightarrow> sock option \<Rightarrow> sends" where
  "broadcast s g payload exclude =
     concat (map (\<lambda>k. safeSend s k payload)
               (filter (\<lambda>k. Some k \<noteq> exclude) (game_sockets g)))"

definition isMoveMessage :: "message \<Rightarrow> bool" where
  "isMoveMessage m = (m_type m = Some ''move'' \<and> m_gameId m \<noteq> None \<and> m_move m \<noteq> None)"

subsection \<open>Handlers\<close>

definition removeClientFromGame :: "client \<Rightarrow> server \<Rightarrow> server \<times> sends" where
  "removeClientFromGame c s =
     (case cl_gameId c of
        None \<Rightarrow> (s, [])
      | Some gid \<Rightarrow>
          if gid = [] then (s, [])
          else (case games s gid of
                  None \<Rightarrow> (s, [])
                | Some g \<Rightarrow>
                    let g1 = (if map_option cl_id (g_white g) = Some (cl_id c)
                              then g\<lparr>g_white := None\<rparr>
                              else if map_option cl_id (g_black g) = Some (cl_id c)
                              then g\<lparr>g_black := None\<rparr>
                              else g\<lparr>g_watchers := removeAll (cl_socket c) (g_watchers g)\<rparr>);
                        g2 = g1\<lparr>g_status := (if both_seated g1 then Active else Waiting)\<rparr>;
                        s' = s\<lparr>games := (games s)(gid \<mapsto> g2)\<rparr>
                    in (s', broadcast s' g2
                              (PlayerLeft (g_id g2) (buildPlayers g2) (g_status g2)) None)))"

text \<open>\<^verbatim>\<open>parsed.gameId || createGameId()\<close>, with \<open>fresh\<close> the identifier drawn.\<close>

definition create_id :: "string \<Rightarrow> message \<Rightarrow> string" where
  "create_id fresh m =
     (case m_gameId m of None \<Rightarrow> fresh | Some v \<Rightarrow> if v \<noteq> [] then v else fresh)"

definition handle_create :: "string \<Rightarrow> sock \<Rightarrow> client \<Rightarrow> message \<Rightarrow> server \<Rightarrow> server \<times> sends"
  where
  "handle_create fresh k c m s =
     (let col = normalizeColor (m_preferredColor m);
          gameId = create_id fresh m
      in if games s gameId \<noteq> None
         then (s, safeSend s k (ErrorEv ''Game already exists''))
         else
           let g0 = \<lparr>g_id = gameId, g_fen = START_FEN, g_status = Waiting,
                     g_white = None, g_black = None, g_watchers = [], g_moves = [],
                     g_result = None\<rparr>;
               g = set_player col (Some (c\<lparr>cl_name := m_playerName m, cl_color := Some col\<rparr>)) g0;
               c' = c\<lparr>cl_name := m_playerName m, cl_color := Some col,
                       cl_gameId := Some gameId\<rparr>;
               s' = s\<lparr>games := (games s)(gameId \<mapsto> g), clients := (clients s)(k \<mapsto> c')\<rparr>
           in (s', safeSend s' k
                     (Session gameId (Some col) None (g_fen g) (g_status g)
                        (buildPlayers g) None)))"

definition assign_color :: "game \<Rightarrow> color \<Rightarrow> color option" where
  "assign_color g preferredColor =
     (if players g preferredColor = None then Some preferredColor
      else if players g White = None then Some White
      else if players g Black = None then Some Black
      else None)"

definition handle_join :: "sock \<Rightarrow> client \<Rightarrow> message \<Rightarrow> server \<Rightarrow> server \<times> sends" where
  "handle_join k c m s =
     (case (case m_gameId m of None \<Rightarrow> None
            | Some key \<Rightarrow> map_option (Pair key) (games s key)) of
        None \<Rightarrow> (s, safeSend s k (ErrorEv ''Game not found''))
      | Some (key, g) \<Rightarrow>
          let c1 = c\<lparr>cl_name := m_playerName m, cl_gameId := Some (g_id g)\<rparr>;
              (c2, g') =
                (case assign_color g (normalizeColor (m_preferredColor m)) of
                   Some col \<Rightarrow>
                     let c2 = c1\<lparr>cl_color := Some col, cl_viewer := Some False\<rparr>;
                         g1 = set_player col (Some c2) g
                     in (c2, g1\<lparr>g_status := (if both_seated g1 then Active else Waiting)\<rparr>)
                 | None \<Rightarrow>
                     (c1\<lparr>cl_viewer := Some True\<rparr>,
                      g\<lparr>g_watchers := set_add k (g_watchers g)\<rparr>));
              s' = s\<lparr>games := (games s)(key \<mapsto> g'), clients := (clients s)(k \<mapsto> c2)\<rparr>
          in (s', safeSend s' k
                    (Session (g_id g') (cl_color c2) (cl_viewer c2) (g_fen g') (g_status g')
                       (buildPlayers g') (g_result g'))
                  @ broadcast s' g'
                      (PlayerJoined (g_id g') (buildPlayers g') (g_status g')) (Some k)))"

text \<open>
  The \<^verbatim>\<open>end\<close> and \<^verbatim>\<open>move\<close> branches.  Behind a guard that has tested a field, the
  \<open>None\<close> case of that field cannot be taken (an absent room identifier after
  \<^verbatim>\<open>!client.gameId\<close>, an absent colour after \<^verbatim>\<open>!client.color\<close>, an absent \<^verbatim>\<open>move\<close> object
  after \<open>isMoveMessage\<close>); it is written out only because the case must be total.
\<close>

definition handle_end :: "sock \<Rightarrow> client \<Rightarrow> message \<Rightarrow> server \<Rightarrow> server \<times> sends" where
  "handle_end k c m s =
     (if \<not> truthy (cl_gameId c) then (s, safeSend s k (ErrorEv ''Not in a game''))
      else (case cl_gameId c of
              None \<Rightarrow> (s, [])
            | Some gid \<Rightarrow>
                (case games s gid of
                   None \<Rightarrow> (s, [])
                 | Some g \<Rightarrow>
                     let g' = g\<lparr>g_status := Ended, g_result := m_result m\<rparr>;
                         s' = s\<lparr>games := (games s)(gid \<mapsto> g')\<rparr>
                     in (s', broadcast s' g' (EndedEv (g_id g') (m_result m) (g_fen g')) None))))"

definition handle_move :: "sock \<Rightarrow> client \<Rightarrow> message \<Rightarrow> server \<Rightarrow> server \<times> sends" where
  "handle_move k c m s =
     (if \<not> truthy (cl_gameId c) \<or> cl_color c = None
      then (s, safeSend s k (ErrorEv ''Join a game first''))
      else (case (case cl_gameId c of None \<Rightarrow> None
                  | Some gid \<Rightarrow> map_option (Pair gid) (games s gid)) of
              None \<Rightarrow> (s, safeSend s k (ErrorEv ''Game not found''))
            | Some (gid, g) \<Rightarrow>
                if Some (getActiveColorFromFEN (g_fen g)) \<noteq> cl_color c
                then (s, safeSend s k (ErrorEv ''Not your turn''))
                else (case m_move m of
                        None \<Rightarrow> (s, safeSend s k (ErrorEv ''Move is missing FEN''))
                      | Some moveData \<Rightarrow>
                          (case mv_FEN moveData of
                             None \<Rightarrow> (s, safeSend s k (ErrorEv ''Move is missing FEN''))
                           | Some f \<Rightarrow>
                               if f = [] then (s, safeSend s k (ErrorEv ''Move is missing FEN''))
                               else
                                 let g' = g\<lparr>g_fen := f, g_moves := g_moves g @ [moveData]\<rparr>;
                                     s' = s\<lparr>games := (games s)(gid \<mapsto> g')\<rparr>
                                 in (case cl_color c of
                                       None \<Rightarrow> (s, [])
                                     | Some mover \<Rightarrow>
                                         (s', broadcast s' g'
                                                (MoveEv (g_id g') moveData (g_fen g')
                                                   (getActiveColorFromFEN (g_fen g')) mover)
                                                None))))))"

text \<open>
  \<^verbatim>\<open>wss.on("connection")\<close>: a new client object for an open socket; \<open>cid\<close> is the
  identity \<^verbatim>\<open>randomUUID()\<close> returned.
\<close>

definition on_connection :: "string \<Rightarrow> sock \<Rightarrow> server \<Rightarrow> server" where
  "on_connection cid k s =
     s\<lparr>clients := (clients s)(k \<mapsto> \<lparr>cl_id = cid, cl_socket = k, cl_name = None,
                                      cl_color = None, cl_gameId = None, cl_viewer = None\<rparr>),
       open_sockets := insert k (open_sockets s)\<rparr>"

text \<open>
  \<^verbatim>\<open>socket.on("message")\<close>: the dispatch on \<^verbatim>\<open>parsed.type\<close>, in the order of the source.
  A socket with no connection delivers no message.
\<close>

definition on_message :: "string \<Rightarrow> sock \<Rightarrow> inbound \<Rightarrow> server \<Rightarrow> server \<times> sends" where
  "on_message fresh k inb s =
     (case clients s k of
        None \<Rightarrow> (s, [])
      | Some c \<Rightarrow>
          (case inb of
             Unparseable \<Rightarrow> (s, safeSend s k (ErrorEv ''Bad JSON payload''))
           | Parsed m \<Rightarrow>
               if m_type m = Some ''ping'' then (s, safeSend s k Pong)
               else if m_type m = Some ''create'' then handle_create fresh k c m s
               else if m_type m = Some ''join'' then handle_join k c m s
               else if m_type m = Some ''end'' then handle_end k c m s
               else if isMoveMessage m then handle_move k c m s
               else (s, safeSend s k (ErrorEv ''Unknown message type''))))"

text \<open>
  \<^verbatim>\<open>socket.on("close")\<close>: the socket is no longer open when the handler runs; afterwards
  the connection is gone and delivers nothing more.
\<close>

definition on_close :: "sock \<Rightarrow> server \<Rightarrow> server \<times> sends" where
  "on_close k s =
     (case clients s k of
        None \<Rightarrow> (s, [])
      | Some c \<Rightarrow>
          let (s', out) = removeClientFromGame c (s\<lparr>open_sockets := open_sockets s - {k}\<rparr>)
          in (s'\<lparr>clients := (clients s')(k := None)\<rparr>, out))"

subsection \<open>The hub as a machine over its inputs\<close>

datatype input = Connect string sock | Message string sock inbound | Close sock

fun step :: "input \<Rightarrow> server \<Rightarrow> server \<times> sends" where
  "step (Connect cid k) s = (on_connection cid k s, [])"
| "step (Message fresh k inb) s = on_message fresh k inb s"
| "step (Close k) s = on_close k s"

fun run :: "input list \<Rightarrow> server \<Rightarrow> server" where
  "run [] s = s"
| "run (i # is) s = run is (fst (step i s))"

text \<open>A JSON object with only its \<^verbatim>\<open>type\<close> field set.\<close>

definition msg :: "string \<Rightarrow> message" where
  "msg t = \<lparr>m_type = Some t, m_preferredColor = None, m_gameId = None,
             m_playerName = None, m_result = None, m_move = None\<rparr>"

subsection \<open>Concrete runs\<close>

text \<open>
  Three connections, \<^verbatim>\<open>a\<close> on socket 1, \<^verbatim>\<open>b\<close> on socket 2 and \<^verbatim>\<open>c\<close> on socket 3, and the
  messages they send: the states below are all reached from the empty hub.
\<close>

definition create_g1 :: message where
  "create_g1 = (msg ''create'')\<lparr>m_gameId := Some ''g1''\<rparr>"

definition create_g2 :: message where
  "create_g2 = (msg ''create'')\<lparr>m_gameId := Some ''g2''\<rparr>"

definition join_g1 :: message where
  "join_g1 = (msg ''join'')\<lparr>m_gameId := Some ''g1''\<rparr>"

definition join_g1_black :: message where
  "join_g1_black = (msg ''join'')\<lparr>m_gameId := Some ''g1'', m_preferredColor := Some ''black''\<rparr>"

definition e2e4 :: move_data where
  "e2e4 = \<lparr>mv_from = (6, 4), mv_to = (4, 4), mv_figure = ''pawn'',
           mv_FEN = Some ''rnbqkbnr/pppppppp/8/8/4P3/8/PPPP1PPP/RNBQKBNR b KQkq e3 0 1''\<rparr>"

definition move_e2e4 :: message where
  "move_e2e4 = (msg ''move'')\<lparr>m_gameId := Some ''g1'', m_move := Some e2e4\<rparr>"

definition move_no_fen :: message where
  "move_no_fen = (msg ''move'')\<lparr>m_gameId := Some ''g1'', m_move := Some (e2e4\<lparr>mv_FEN := None\<rparr>)\<rparr>"

definition lobby :: server where
  "lobby = run [Connect ''a'' 1, Connect ''b'' 2, Connect ''c'' 3] init"

text \<open>\<^verbatim>\<open>a\<close> has created room \<^verbatim>\<open>g1\<close> and sits on white.\<close>

definition table_open :: server where
  "table_open = run [Message ''x1'' 1 (Parsed create_g1)] lobby"

text \<open>\<^verbatim>\<open>b\<close> has joined \<^verbatim>\<open>g1\<close> and sits on black.\<close>

definition table_full :: server where
  "table_full = run [Message ''x2'' 2 (Parsed join_g1)] table_open"

text \<open>\<^verbatim>\<open>c\<close> has joined \<^verbatim>\<open>g1\<close> and watches.\<close>

definition table_watched :: server where
  "table_watched = run [Message ''x3'' 3 (Parsed join_g1)] table_full"

text \<open>\<^verbatim>\<open>a\<close> has ended the game at the watched table.\<close>

definition table_ended :: server where
  "table_ended = run [Message ''x4'' 1 (Parsed (msg ''end''))] table_watched"

text \<open>
  A hub state in which a connection records a room that is not in the store.  No run
  from the empty hub reaches it (rooms are never deleted); it exercises the silent
  return of the end handler.
\<close>

definition dangling :: server where
  "dangling =
     \<lparr>games = Map.empty,
      clients = [1 \<mapsto> \<lparr>cl_id = ''a'', cl_socket = 1, cl_name = None, cl_color = Some White,
                        cl_gameId = Some ''gone'', cl_viewer = Some False\<rparr>],
      open_sockets = {1}\<rparr>"

text \<open>\<^verbatim>\<open>a\<close> has created \<^verbatim>\<open>g1\<close>, then \<^verbatim>\<open>g2\<close>, and then its transport has closed.\<close>

definition two_rooms_closed :: server where
  "two_rooms_closed =
     run [Message ''x1'' 1 (Parsed create_g1), Message ''x2'' 1 (Parsed create_g2), Close 1] lobby"

subsection \<open>Notions the claims use\<close>

text \<open>
  A connection occupies a seat when the seat holds a client object of its identity:
  the test \<^verbatim>\<open>game.players.white?.id === client.id\<close> of the source.
\<close>

definition occupies :: "client \<Rightarrow> game \<Rightarrow> color \<Rightarrow> bool" where
  "occupies c g col = (map_option cl_id (players g col) = Some (cl_id c))"

text \<open>
  Every room a connection records is in the store, under the identifier it carries.
\<close>

definition recorded_rooms_exist :: "server \<Rightarrow> bool" where
  "recorded_rooms_exist s =
     ((\<forall>k c gid. clients s k = Some c \<and> cl_gameId c = Some gid \<longrightarrow> games s gid \<noteq> None)
      \<and> (\<forall>key g. games s key = Some g \<longrightarrow> g_id g = key))"

text \<open>
  The status of a room agrees with its seats: active exactly when both are occupied.
\<close>

definition status_matches_seats :: "game \<Rightarrow> bool" where
  "status_matches_seats g = (g_status g = Active \<longleftrightarrow> g_white g \<noteq> None \<and> g_black g \<noteq> None)"

text \<open>The inputs of a join sequence: new connections and join messages.\<close>

fun join_input :: "input \<Rightarrow> bool" where
  "join_input (Connect cid k) = True"
| "join_input (Message fresh k (Parsed m)) = (m_type m = Some ''join'')"
| "join_input _ = False"

section \<open>The hub variant with a matchmaking queue\<close>

text \<open>
  The repository holds a second variant of the hub, the same file with a
  \<^verbatim>\<open>matchmakingQueue\<close>, a \<^verbatim>\<open>queue\<close> branch in its message handler and a games list
  pushed to every socket (in this snapshot it follows the client hook in
  \<^verbatim>\<open>app/hooks/useChessWebSocket.ts\<close>).  Its queue branch is embedded here: \<open>now\<close> is
  what \<^verbatim>\<open>Date.now()\<close> returned, \<open>p1Color\<close> what \<^verbatim>\<open>randomColor()\<close> drew, \<open>fresh\<close> what
  \<^verbatim>\<open>createGameId()\<close> drew.  Its \<^verbatim>\<open>games\<close> map is kept in insertion order, since the games
  list iterates it; its client objects carry the two extra flags that variant sets.
\<close>

record queue_entry =
  qe_clientId :: string
  qe_socket :: sock
  qe_playerName :: "string option"
  qe_timestamp :: nat

record qclient = client +
  cl_inQueue :: "bool option"
  cl_tempSlot :: "bool option"

record game_summary =
  gs_id :: string
  gs_status :: status
  gs_fen :: string
  gs_players :: "player_info list"
  gs_watcherCount :: nat
  gs_moveCount :: nat

datatype hub_event =
    QueueStatus nat bool
  | Matched string color string status "player_info list" bool
  | GamesList "game_summary list"

record hub =
  hub_games :: "(string \<times> game) list"
  matchmakingQueue :: "queue_entry list"
  hub_clients :: "sock \<rightharpoonup> qclient"
  wss_clients :: "sock list"
  hub_open :: "sock set"

text \<open>\<^verbatim>\<open>Map.set\<close>: an existing key keeps its place, a new key goes last.\<close>

fun map_set :: "'k \<Rightarrow> 'v \<Rightarrow> ('k \<times> 'v) list \<Rightarrow> ('k \<times> 'v) list" where
  "map_set k v [] = [(k, v)]"
| "map_set k v (p # ps) = (if fst p = k then (k, v) # ps else p # map_set k v ps)"

definition hub_safeSend :: "hub \<Rightarrow> sock \<Rightarrow> hub_event \<Rightarrow> (sock \<times> hub_event) list" where
  "hub_safeSend h k payload = (if k \<in> hub_open h then [(k, payload)] else [])"

text \<open>The colour of the second player: \<^verbatim>\<open>p1Color === "white" ? "black" : "white"\<close>.\<close>

definition other_color :: "color \<Rightarrow> color" where
  "other_color p1Color = (if p1Color = White then Black else White)"

definition broadcastGamesList :: "hub \<Rightarrow> (sock \<times> hub_event) list" where
  "broadcastGamesList h =
     (let gamesList =
            map (\<lambda>g. \<lparr>gs_id = g_id g, gs_status = g_status g, gs_fen = g_fen g,
                       gs_players = buildPlayers g, gs_watcherCount = length (g_watchers g),
                       gs_moveCount = length (g_moves g)\<rparr>)
              (filter (\<lambda>g. g_status g = Active) (map snd (hub_games h)))
      in concat (map (\<lambda>k. if k \<in> hub_open h then hub_safeSend h k (GamesList gamesList) else [])
                   (wss_clients h)))"

text \<open>The seat object built for a matched queue entry.\<close>

definition queue_seat :: "queue_entry \<Rightarrow> color \<Rightarrow> string \<Rightarrow> client" where
  "queue_seat p col gameId =
     \<lparr>cl_id = qe_clientId p, cl_socket = qe_socket p, cl_name = qe_playerName p,
      cl_color = Some col, cl_gameId = Some gameId, cl_viewer = None\<rparr>"

text \<open>The body of the \<^verbatim>\<open>queue\<close> branch.\<close>

definition handle_queue ::
  "nat \<Rightarrow> color \<Rightarrow> string \<Rightarrow> sock \<Rightarrow> qclient \<Rightarrow> message \<Rightarrow> hub
     \<Rightarrow> hub \<times> (sock \<times> hub_event) list" where
  "handle_queue now p1Color fresh k c m h =
     (let queueEntry = \<lparr>qe_clientId = cl_id c, qe_socket = k, qe_playerName = m_playerName m,
                         qe_timestamp = now\<rparr>;
          q1 = matchmakingQueue h @ [queueEntry];
          h1 = h\<lparr>matchmakingQueue := q1,
                 hub_clients := (hub_clients h)(k \<mapsto> c\<lparr>cl_gameId := None,
                                                         cl_inQueue := Some True\<rparr>)\<rparr>;
          out1 = hub_safeSend h1 k (QueueStatus (length q1) True)
      in (case q1 of
            player1 # player2 # rest \<Rightarrow>
              let p2Color = other_color p1Color;
                  g = set_player p2Color (Some (queue_seat player2 p2Color fresh))
                        (set_player p1Color (Some (queue_seat player1 p1Color fresh))
                           \<lparr>g_id = fresh, g_fen = START_FEN, g_status = Active,
                            g_white = None, g_black = None, g_watchers = [], g_moves = [],
                            g_result = None\<rparr>);
                  h2 = h1\<lparr>matchmakingQueue := rest,
                         hub_games := map_set fresh g (hub_games h1)\<rparr>
              in (h2, out1
                      @ hub_safeSend h2 (qe_socket player1)
                          (Matched fresh p1Color START_FEN Active (buildPlayers g) True)
                      @ hub_safeSend h2 (qe_socket player2)
                          (Matched fresh p2Color START_FEN Active (buildPlayers g) True)
                      @ broadcastGamesList h2)
          | _ \<Rightarrow> (h1, out1)))"

text \<open>The branch for the connection on socket \<open>k\<close>.\<close>

definition hub_on_queue ::
  "nat \<Rightarrow> color \<Rightarrow> string \<Rightarrow> sock \<Rightarrow> message \<Rightarrow> hub \<Rightarrow> hub \<times> (sock \<times> hub_event) list" where
  "hub_on_queue now p1Color fresh k m h =
     (case hub_clients h k of
        None \<Rightarrow> (h, [])
      | Some c \<Rightarrow> handle_queue now p1Color fresh k c m h)"

definition hub_init :: hub where
  "hub_init = \<lparr>hub_games = [], matchmakingQueue = [], hub_clients = Map.empty,
               wss_clients = [], hub_open = {}\<rparr>"

definition hub_on_connection :: "string \<Rightarrow> sock \<Rightarrow> hub \<Rightarrow> hub" where
  "hub_on_connection cid k h =
     h\<lparr>hub_clients := (hub_clients h)(k \<mapsto>
          \<lparr>cl_id = cid, cl_socket = k, cl_name = None, cl_color = None, cl_gameId = None,
           cl_viewer = None, cl_inQueue = None, cl_tempSlot = None\<rparr>),
       wss_clients := (if k \<in> set (wss_clients h) then wss_clients h else wss_clients h @ [k]),
       hub_open := insert k (hub_open h)\<rparr>"

text \<open>Two connections, \<^verbatim>\<open>a\<close> on socket 1 and \<^verbatim>\<open>b\<close> on socket 2, nobody waiting.\<close>

definition hub_lobby :: hub where
  "hub_lobby = hub_on_connection ''b'' 2 (hub_on_connection ''a'' 1 hub_init)"


section \<open>Turn derivation\<close>

lemma js_split_nonempty: "js_split s \<noteq> []"
  by (induction s) (auto split: list.splits)

lemma js_split_no_space: "CHR '' '' \<notin> set a \<Longrightarrow> js_split a = [a]"
  by (induction a) auto

lemma js_split_append:
  "CHR '' '' \<notin> set a \<Longrightarrow> js_split (a @ CHR '' '' # r) = a # js_split r"
  by (induction a) auto

lemma second_field_no_space:
  "CHR '' '' \<notin> set a \<Longrightarrow> at_index (js_split a) 1 = None"
  by (simp add: js_split_no_space at_index_def)

lemma second_field_append:
  assumes "CHR '' '' \<notin> set a"
  shows "at_index (js_split (a @ CHR '' '' # r)) 1 = Some (hd (js_split r))"
proof -
  obtain v vs where r: "js_split r = v # vs"
    using js_split_nonempty [of r] by (cases "js_split r") auto
  show ?thesis using assms r by (simp add: js_split_append at_index_def)
qed

lemma first_space_decompose:
  "CHR '' '' \<notin> set s \<or> (\<exists>a r. s = a @ CHR '' '' # r \<and> CHR '' '' \<notin> set a)"
  using split_list_first [of "CHR '' ''" s] by blast

lemma first_space_unique:
  "CHR '' '' \<notin> set a \<Longrightarrow> CHR '' '' \<notin> set a' \<Longrightarrow>
   a @ CHR '' '' # r = a' @ CHR '' '' # r' \<Longrightarrow> a = a' \<and> r = r'"
proof (induction a arbitrary: a')
  case Nil
  then show ?case by (cases a') auto
next
  case (Cons x a)
  then show ?case by (cases a') auto
qed

lemma hd_js_split_b:
  "hd (js_split s) = ''b'' \<longleftrightarrow> (\<exists>r. s = ''b'' @ r \<and> (r = [] \<or> hd r = CHR '' ''))"
proof (cases "CHR '' '' \<in> set s")
  case False
  then have "hd (js_split s) = s" by (simp add: js_split_no_space)
  moreover have "(\<exists>r. s = ''b'' @ r \<and> (r = [] \<or> hd r = CHR '' '')) \<longleftrightarrow> s = ''b''"
  proof
    assume "\<exists>r. s = ''b'' @ r \<and> (r = [] \<or> hd r = CHR '' '')"
    then obtain r where s: "s = ''b'' @ r" and r: "r = [] \<or> hd r = CHR '' ''" by blast
    have "r = []"
    proof (cases r)
      case Nil
      then show ?thesis .
    next
      case (Cons x xs)
      then have "x = CHR '' ''" using r by simp
      then show ?thesis using False s Cons by simp
    qed
    then show "s = ''b''" using s by simp
  next
    assume "s = ''b''"
    then show "\<exists>r. s = ''b'' @ r \<and> (r = [] \<or> hd r = CHR '' '')" by simp
  qed
  ultimately show ?thesis by simp
next
  case True
  then obtain a r where s: "s = a @ CHR '' '' # r" and a: "CHR '' '' \<notin> set a"
    using first_space_decompose [of s] by blast
  have h: "hd (js_split s) = a" using s a by (simp add: js_split_append)
  show ?thesis
  proof
    assume "hd (js_split s) = ''b''"
    then have "a = ''b''" using h by simp
    then have "s = ''b'' @ (CHR '' '' # r)" using s by simp
    then show "\<exists>r. s = ''b'' @ r \<and> (r = [] \<or> hd r = CHR '' '')" by fastforce
  next
    assume "\<exists>r. s = ''b'' @ r \<and> (r = [] \<or> hd r = CHR '' '')"
    then obtain r' where s': "s = ''b'' @ r'" and r': "r' = [] \<or> hd r' = CHR '' ''" by blast
    have "r' \<noteq> []" using True s' by auto
    then obtain t where t: "r' = CHR '' '' # t" using r' by (cases r') auto
    have "s = ''b'' @ CHR '' '' # t" using s' t by simp
    moreover have "CHR '' '' \<notin> set ''b''" by simp
    ultimately have "js_split s = ''b'' # js_split t"
      using js_split_append [of "''b''" t] by simp
    then show "hd (js_split s) = ''b''" by simp
  qed
qed

lemma black_iff_second_field_b:
  "getActiveColorFromFEN fen = Black \<longleftrightarrow>
     (\<exists>a r. fen = a @ '' b'' @ r \<and> CHR '' '' \<notin> set a \<and> (r = [] \<or> hd r = CHR '' ''))"
proof (cases "CHR '' '' \<in> set fen")
  case False
  then have "at_index (js_split fen) 1 = None" by (rule second_field_no_space)
  then have "getActiveColorFromFEN fen = White" by (simp add: getActiveColorFromFEN_def)
  moreover have "\<not> (\<exists>a r. fen = a @ '' b'' @ r \<and> CHR '' '' \<notin> set a
                       \<and> (r = [] \<or> hd r = CHR '' ''))"
    using False by auto
  ultimately show ?thesis by simp
next
  case True
  then obtain a r where s: "fen = a @ CHR '' '' # r" and a: "CHR '' '' \<notin> set a"
    using first_space_decompose [of fen] by blast
  have sf: "at_index (js_split fen) 1 = Some (hd (js_split r))"
    using s a second_field_append by simp
  have L: "getActiveColorFromFEN fen = Black \<longleftrightarrow> hd (js_split r) = ''b''"
    using sf by (simp add: getActiveColorFromFEN_def)
  have R: "(\<exists>a r. fen = a @ '' b'' @ r \<and> CHR '' '' \<notin> set a \<and> (r = [] \<or> hd r = CHR '' ''))
             \<longleftrightarrow> (\<exists>t. r = ''b'' @ t \<and> (t = [] \<or> hd t = CHR '' ''))"
  proof
    assume "\<exists>a r. fen = a @ '' b'' @ r \<and> CHR '' '' \<notin> set a \<and> (r = [] \<or> hd r = CHR '' '')"
    then obtain a' r' where f: "fen = a' @ '' b'' @ r'" and a': "CHR '' '' \<notin> set a'"
      and r': "r' = [] \<or> hd r' = CHR '' ''" by blast
    have "a @ CHR '' '' # r = a' @ CHR '' '' # (''b'' @ r')" using s f by simp
    then have "r = ''b'' @ r'" using first_space_unique [OF a a'] by blast
    then show "\<exists>t. r = ''b'' @ t \<and> (t = [] \<or> hd t = CHR '' '')" using r' by blast
  next
    assume "\<exists>t. r = ''b'' @ t \<and> (t = [] \<or> hd t = CHR '' '')"
    then obtain t where t: "r = ''b'' @ t" and t': "t = [] \<or> hd t = CHR '' ''" by blast
    have "fen = a @ '' b'' @ t" using s t by simp
    then show "\<exists>a r. fen = a @ '' b'' @ r \<and> CHR '' '' \<notin> set a \<and> (r = [] \<or> hd r = CHR '' '')"
      using a t' by blast
  qed
  show ?thesis using L R hd_js_split_b [of r] by simp
qed

lemma not_black_white: "c \<noteq> Black \<longleftrightarrow> c = White"
  by (cases c) auto

text \<open>
  Claim C10.  Side-to-move derivation is defined on every string and never fails:
  \<open>getActiveColorFromFEN\<close> answers black exactly when the second space-separated
  field of the string is \<^verbatim>\<open>b\<close>, that is, when the string is a first field without a
  space, one space, the letter \<^verbatim>\<open>b\<close>, and then either nothing or a further space; on
  every other string, also one with fewer than two fields, it answers white.
\<close>

theorem getActiveColorFromFEN_total:
  "getActiveColorFromFEN fen =
     (if \<exists>a r. fen = a @ '' b'' @ r \<and> CHR '' '' \<notin> set a \<and> (r = [] \<or> hd r = CHR '' '')
      then Black else White)"
  using black_iff_second_field_b [of fen] not_black_white [of "getActiveColorFromFEN fen"]
  by (simp split: if_splits)

theorem getActiveColorFromFEN_total_witness:
  "getActiveColorFromFEN ''8/8/8/8/8/8/8/8 b - - 0 1'' = Black
   \<and> getActiveColorFromFEN START_FEN = White
   \<and> getActiveColorFromFEN '''' = White
   \<and> getActiveColorFromFEN ''b'' = White"
proof -
  have "''8/8/8/8/8/8/8/8 b - - 0 1'' = ''8/8/8/8/8/8/8/8'' @ '' b'' @ '' - - 0 1''
        \<and> CHR '' '' \<notin> set ''8/8/8/8/8/8/8/8''
        \<and> ('' - - 0 1'' = [] \<or> hd '' - - 0 1'' = CHR '' '')"
    by simp
  then have "\<exists>a r. ''8/8/8/8/8/8/8/8 b - - 0 1'' = a @ '' b'' @ r \<and> CHR '' '' \<notin> set a
                \<and> (r = [] \<or> hd r = CHR '' '')"
    by blast
  then have "getActiveColorFromFEN ''8/8/8/8/8/8/8/8 b - - 0 1'' = Black"
    using getActiveColorFromFEN_total [of "''8/8/8/8/8/8/8/8 b - - 0 1''"] by simp
  moreover have "getActiveColorFromFEN START_FEN = White"
    by (simp add: getActiveColorFromFEN_def START_FEN_def at_index_def)
  moreover have "getActiveColorFromFEN '''' = White"
    by (simp add: getActiveColorFromFEN_def at_index_def)
  moreover have "getActiveColorFromFEN ''b'' = White"
    by (simp add: getActiveColorFromFEN_def at_index_def)
  ultimately show ?thesis by simp
qed

section \<open>Seat colours and the end request\<close>

lemmas handler_defs = on_connection_def on_message_def handle_create_def handle_join_def
  handle_end_def handle_move_def on_close_def removeClientFromGame_def create_id_def msg_def
  init_def Let_def normalizeColor_def assign_color_def players_def set_player_def
  both_seated_def set_add_def safeSend_def buildPlayers_def game_sockets_def broadcast_def
  truthy_def isMoveMessage_def

lemmas table_defs = handler_defs lobby_def create_g1_def join_g1_def table_open_def
  table_full_def table_watched_def

lemma handle_create_fresh:
  assumes "games s (create_id fresh m) = None"
  shows "handle_create fresh k c m s =
     (let col = normalizeColor (m_preferredColor m);
          g = set_player col (Some (c\<lparr>cl_name := m_playerName m, cl_color := Some col\<rparr>))
                \<lparr>g_id = create_id fresh m, g_fen = START_FEN, g_status = Waiting,
                 g_white = None, g_black = None, g_watchers = [], g_moves = [],
                 g_result = None\<rparr>;
          s' = s\<lparr>games := (games s)(create_id fresh m \<mapsto> g),
                 clients := (clients s)(k \<mapsto> c\<lparr>cl_name := m_playerName m,
                       cl_color := Some col, cl_gameId := Some (create_id fresh m)\<rparr>)\<rparr>
      in (s', safeSend s' k (Session (create_id fresh m) (Some col) None (g_fen g) (g_status g)
                        (buildPlayers g) None)))"
  using assms by (simp add: handle_create_def Let_def)

lemma on_message_create:
  "clients s k = Some c \<Longrightarrow> m_type m = Some ''create'' \<Longrightarrow>
   on_message fresh k (Parsed m) s = handle_create fresh k c m s"
  by (simp add: on_message_def)

lemma on_message_join:
  "clients s k = Some c \<Longrightarrow> m_type m = Some ''join'' \<Longrightarrow>
   on_message fresh k (Parsed m) s = handle_join k c m s"
  by (simp add: on_message_def)

lemma on_message_end:
  "clients s k = Some c \<Longrightarrow> m_type m = Some ''end'' \<Longrightarrow>
   on_message fresh k (Parsed m) s = handle_end k c m s"
  by (simp add: on_message_def)

lemma on_message_move:
  "clients s k = Some c \<Longrightarrow> isMoveMessage m \<Longrightarrow>
   on_message fresh k (Parsed m) s = handle_move k c m s"
  by (simp add: on_message_def isMoveMessage_def)

lemma set_broadcast:
  "set (broadcast s g ev ex) =
     {(k, ev) | k. k \<in> set (game_sockets g) \<and> k \<in> open_sockets s \<and> Some k \<noteq> ex}"
  by (auto simp: broadcast_def safeSend_def split: if_splits)

text \<open>
  Claim C9.  The colour a create or join message asks for is black exactly when its
  \<^verbatim>\<open>preferredColor\<close> field is the string \<^verbatim>\<open>black\<close>; an absent field and every other
  string ask for white.  A create message seats its sender on that colour and leaves
  the other seat empty; a join message seats its sender on that colour when the seat is
  free.
\<close>

theorem normalizeColor_black_exactly:
  "normalizeColor p = (if p = Some ''black'' then Black else White)
   \<and> (clients s k = Some c \<and> m_type m = Some ''create'' \<and> games s (create_id fresh m) = None
        \<longrightarrow> (\<exists>g. games (fst (on_message fresh k (Parsed m) s)) (create_id fresh m) = Some g
               \<and> map_option cl_id
                    (players g (if m_preferredColor m = Some ''black'' then Black else White))
                  = Some (cl_id c)
               \<and> players g (if m_preferredColor m = Some ''black'' then White else Black) = None))
   \<and> (clients s k = Some c \<and> m_type m = Some ''join'' \<and> m_gameId m = Some key
        \<and> games s key = Some g0
        \<and> players g0 (if m_preferredColor m = Some ''black'' then Black else White) = None
        \<longrightarrow> (\<exists>g. games (fst (on_message fresh k (Parsed m) s)) key = Some g
               \<and> map_option cl_id
                    (players g (if m_preferredColor m = Some ''black'' then Black else White))
                  = Some (cl_id c)))"
proof (intro conjI impI)
  show "normalizeColor p = (if p = Some ''black'' then Black else White)"
    by (simp add: normalizeColor_def)
next
  assume a: "clients s k = Some c \<and> m_type m = Some ''create''
               \<and> games s (create_id fresh m) = None"
  then have eq: "on_message fresh k (Parsed m) s = handle_create fresh k c m s"
    by (simp add: on_message_create)
  show "\<exists>g. games (fst (on_message fresh k (Parsed m) s)) (create_id fresh m) = Some g
               \<and> map_option cl_id
                    (players g (if m_preferredColor m = Some ''black'' then Black else White))
                  = Some (cl_id c)
               \<and> players g (if m_preferredColor m = Some ''black'' then White else Black) = None"
    unfolding eq using a
    by (cases "m_preferredColor m = Some ''black''")
       (simp_all add: handle_create_fresh Let_def normalizeColor_def players_def set_player_def)
next
  assume a: "clients s k = Some c \<and> m_type m = Some ''join'' \<and> m_gameId m = Some key
        \<and> games s key = Some g0
        \<and> players g0 (if m_preferredColor m = Some ''black'' then Black else White) = None"
  then have eq: "on_message fresh k (Parsed m) s = handle_join k c m s"
    by (simp add: on_message_join)
  show "\<exists>g. games (fst (on_message fresh k (Parsed m) s)) key = Some g
               \<and> map_option cl_id
                    (players g (if m_preferredColor m = Some ''black'' then Black else White))
                  = Some (cl_id c)"
    unfolding eq using a
    by (cases "m_preferredColor m = Some ''black''")
       (simp_all add: handle_join_def Let_def normalizeColor_def assign_color_def players_def
          set_player_def)
qed

theorem normalizeColor_black_exactly_witness:
  "normalizeColor (Some ''black'') = Black
   \<and> normalizeColor (Some ''Black'') = White
   \<and> normalizeColor None = White
   \<and> (\<exists>g. games (fst (on_message ''x'' 1 (Parsed create_g1) lobby)) ''g1'' = Some g
          \<and> map_option cl_id (players g White) = Some ''a'' \<and> players g Black = None)
   \<and> (\<exists>g. games (fst (on_message ''x'' 2 (Parsed join_g1_black) table_open)) ''g1'' = Some g
          \<and> map_option cl_id (players g Black) = Some ''b'')"
proof -
  let ?a = "\<lparr>cl_id = ''a'', cl_socket = 1, cl_name = None, cl_color = None,
             cl_gameId = None, cl_viewer = None\<rparr>"
  let ?b = "\<lparr>cl_id = ''b'', cl_socket = 2, cl_name = None, cl_color = None,
             cl_gameId = None, cl_viewer = None\<rparr>"
  let ?g = "\<lparr>g_id = ''g1'', g_fen = START_FEN, g_status = Waiting,
             g_white = Some (?a\<lparr>cl_color := Some White\<rparr>), g_black = None,
             g_watchers = [], g_moves = [], g_result = None\<rparr>"
  have a: "clients lobby 1 = Some ?a" by (simp add: table_defs join_g1_black_def)
  have b: "clients table_open 2 = Some ?b" by (simp add: table_defs join_g1_black_def)
  have g: "games table_open ''g1'' = Some ?g" by (simp add: table_defs join_g1_black_def)
  have n: "games lobby ''g1'' = None" by (simp add: table_defs join_g1_black_def)
  have c: "m_type create_g1 = Some ''create'' \<and> create_id ''x'' create_g1 = ''g1''
           \<and> m_preferredColor create_g1 = None"
    by (simp add: table_defs join_g1_black_def)
  have j: "m_type join_g1_black = Some ''join'' \<and> m_gameId join_g1_black = Some ''g1''
           \<and> m_preferredColor join_g1_black = Some ''black''"
    by (simp add: table_defs join_g1_black_def)
  have f: "players ?g Black = None" by (simp add: players_def)
  show ?thesis
    using normalizeColor_black_exactly
            [of "Some ''black''" lobby 1 ?a create_g1 "''x''" "''g1''" ?g]
          normalizeColor_black_exactly
            [of "Some ''Black''" table_open 2 ?b join_g1_black "''x''" "''g1''" ?g]
          normalizeColor_black_exactly [of None lobby 1 ?a create_g1 "''x''" "''g1''" ?g]
          a b g n c j f
    by simp
qed

text \<open>
  Claim C8.  An end message from a connection that records a room identifier which is
  not in the room store gets no reply, neither an error nor any other event, and the
  hub state stays as it was.
\<close>

theorem end_unknown_room_silent:
  assumes "clients s k = Some c" and "m_type m = Some ''end''"
    and "cl_gameId c = Some gid" and "gid \<noteq> []" and "games s gid = None"
  shows "on_message fresh k (Parsed m) s = (s, [])"
  using assms by (simp add: on_message_end handle_end_def truthy_def)

theorem end_unknown_room_silent_witness:
  "on_message ''x'' 1 (Parsed (msg ''end'')) dangling = (dangling, [])"
proof -
  have "clients dangling 1 = Some \<lparr>cl_id = ''a'', cl_socket = 1, cl_name = None,
          cl_color = Some White, cl_gameId = Some ''gone'', cl_viewer = Some False\<rparr>"
    by (simp add: dangling_def)
  moreover have "m_type (msg ''end'') = Some ''end''" by (simp add: msg_def)
  moreover have "games dangling ''gone'' = None" by (simp add: dangling_def)
  ultimately show ?thesis
    using end_unknown_room_silent [of dangling 1 _ "msg ''end''" "''gone''" "''x''"] by simp
qed

text \<open>
  Claim C5, as the code has it.  The claim says an end request fails whenever the
  caller holds no seat, so that an observer cannot end a game.  The guard of the
  handler is on the connection's recorded room, not on a seat: at the watched table the
  observer \<^verbatim>\<open>c\<close>, who holds neither seat, sends an end message, the room becomes ended
  and the ended event goes to both seats and to the observer; no error is sent.
\<close>

theorem observer_ends_game:
  "map_option (\<lambda>g. (map_option cl_id (g_white g), map_option cl_id (g_black g),
                    g_watchers g, g_status g)) (games table_watched ''g1'')
     = Some (Some ''a'', Some ''b'', [3], Active)
   \<and> map_option (\<lambda>c. (cl_id c, cl_viewer c)) (clients table_watched 3) = Some (''c'', Some True)
   \<and> map_option g_status
       (games (fst (on_message ''x'' 3 (Parsed (msg ''end'')) table_watched)) ''g1'')
     = Some Ended
   \<and> snd (on_message ''x'' 3 (Parsed (msg ''end'')) table_watched)
     = [(1, EndedEv ''g1'' None START_FEN), (2, EndedEv ''g1'' None START_FEN),
        (3, EndedEv ''g1'' None START_FEN)]"
  by (simp add: table_defs)

text \<open>
  Claim C5, amended.  An end request is answered with the error \<^verbatim>\<open>Not in a game\<close>, and
  changes nothing, exactly when the caller's connection records no room.  When it
  records a room of the store, whether the caller holds a seat there or watches, the
  room's status becomes ended, the result is stored on the room, and the ended event
  with the result and the final position is written to the socket of every seat and of
  every observer that is open; no error is sent.  When it records a room that is not in
  the store, nothing is sent and nothing changes.
\<close>

theorem end_request_outcome:
  assumes "clients s k = Some c" and "m_type m = Some ''end''"
  shows "(\<not> truthy (cl_gameId c) \<longrightarrow>
            on_message fresh k (Parsed m) s = (s, safeSend s k (ErrorEv ''Not in a game'')))
       \<and> (\<forall>gid g. cl_gameId c = Some gid \<and> gid \<noteq> [] \<and> games s gid = Some g \<longrightarrow>
            (\<exists>s'. on_message fresh k (Parsed m) s =
                     (s', broadcast s g (EndedEv (g_id g) (m_result m) (g_fen g)) None)
                 \<and> games s' = (games s)(gid \<mapsto> g\<lparr>g_status := Ended, g_result := m_result m\<rparr>)
                 \<and> clients s' = clients s \<and> open_sockets s' = open_sockets s)
            \<and> (\<forall>k'. k' \<in> set (game_sockets g) \<and> k' \<in> open_sockets s \<longrightarrow>
                  (k', EndedEv (g_id g) (m_result m) (g_fen g))
                    \<in> set (snd (on_message fresh k (Parsed m) s)))
            \<and> (\<forall>k' e. (k', ErrorEv e) \<notin> set (snd (on_message fresh k (Parsed m) s))))
       \<and> (\<forall>gid. cl_gameId c = Some gid \<and> gid \<noteq> [] \<and> games s gid = None \<longrightarrow>
            on_message fresh k (Parsed m) s = (s, []))"
proof (intro conjI allI impI)
  assume "\<not> truthy (cl_gameId c)"
  then show "on_message fresh k (Parsed m) s = (s, safeSend s k (ErrorEv ''Not in a game''))"
    using assms by (simp add: on_message_end handle_end_def)
next
  fix gid g
  assume a: "cl_gameId c = Some gid \<and> gid \<noteq> [] \<and> games s gid = Some g"
  let ?g = "g\<lparr>g_status := Ended, g_result := m_result m\<rparr>"
  let ?s = "s\<lparr>games := (games s)(gid \<mapsto> ?g)\<rparr>"
  let ?ev = "EndedEv (g_id g) (m_result m) (g_fen g)"
  have b: "broadcast ?s ?g ?ev None = broadcast s g ?ev None"
    by (simp add: broadcast_def safeSend_def game_sockets_def)
  have eq: "on_message fresh k (Parsed m) s = (?s, broadcast s g ?ev None)"
    using assms a b by (simp add: on_message_end handle_end_def truthy_def Let_def)
  show "\<exists>s'. on_message fresh k (Parsed m) s = (s', broadcast s g ?ev None)
                 \<and> games s' = (games s)(gid \<mapsto> ?g)
                 \<and> clients s' = clients s \<and> open_sockets s' = open_sockets s"
    using eq by simp
  { fix k'
    assume "k' \<in> set (game_sockets g) \<and> k' \<in> open_sockets s"
    then show "(k', ?ev) \<in> set (snd (on_message fresh k (Parsed m) s))"
      unfolding eq by (simp add: set_broadcast) }
  { fix k' e
    show "(k', ErrorEv e) \<notin> set (snd (on_message fresh k (Parsed m) s))"
      unfolding eq by (simp add: set_broadcast) }
next
  fix gid
  assume "cl_gameId c = Some gid \<and> gid \<noteq> [] \<and> games s gid = None"
  then show "on_message fresh k (Parsed m) s = (s, [])"
    using assms by (simp add: on_message_end handle_end_def truthy_def)
qed

theorem end_request_outcome_witness:
  "on_message ''x'' 1 (Parsed (msg ''end'')) lobby = (lobby, [(1, ErrorEv ''Not in a game'')])
   \<and> (1, EndedEv ''g1'' None START_FEN)
        \<in> set (snd (on_message ''x'' 1 (Parsed (msg ''end'')) table_full))
   \<and> (2, EndedEv ''g1'' None START_FEN)
        \<in> set (snd (on_message ''x'' 1 (Parsed (msg ''end'')) table_full))
   \<and> (1, ErrorEv ''Not in a game'')
        \<notin> set (snd (on_message ''x'' 1 (Parsed (msg ''end'')) table_full))"
proof -
  let ?a = "\<lparr>cl_id = ''a'', cl_socket = 1, cl_name = None, cl_color = None,
             cl_gameId = None, cl_viewer = None\<rparr>"
  let ?a' = "?a\<lparr>cl_color := Some White, cl_gameId := Some ''g1''\<rparr>"
  let ?b = "\<lparr>cl_id = ''b'', cl_socket = 2, cl_name = None, cl_color = Some Black,
             cl_gameId = Some ''g1'', cl_viewer = Some False\<rparr>"
  let ?g = "\<lparr>g_id = ''g1'', g_fen = START_FEN, g_status = Active,
             g_white = Some (?a\<lparr>cl_color := Some White\<rparr>), g_black = Some ?b,
             g_watchers = [], g_moves = [], g_result = None\<rparr>"
  have a: "clients lobby 1 = Some ?a" by (simp add: table_defs)
  have a': "clients table_full 1 = Some ?a'" by (simp add: table_defs)
  have g: "games table_full ''g1'' = Some ?g" by (simp add: table_defs)
  have o: "open_sockets lobby = {3, 2, 1} \<and> open_sockets table_full = {3, 2, 1}"
    by (simp add: table_defs)
  have t: "m_type (msg ''end'') = Some ''end'' \<and> m_result (msg ''end'') = None"
    by (simp add: msg_def)
  have 1: "on_message ''x'' 1 (Parsed (msg ''end'')) lobby
             = (lobby, [(1, ErrorEv ''Not in a game'')])"
    using end_request_outcome [of lobby 1 ?a "msg ''end''" "''x''"] a t o
    by (simp add: truthy_def safeSend_def)
  have 2: "(1, EndedEv ''g1'' None START_FEN)
             \<in> set (snd (on_message ''x'' 1 (Parsed (msg ''end'')) table_full))
         \<and> (2, EndedEv ''g1'' None START_FEN)
             \<in> set (snd (on_message ''x'' 1 (Parsed (msg ''end'')) table_full))
         \<and> (1, ErrorEv ''Not in a game'')
             \<notin> set (snd (on_message ''x'' 1 (Parsed (msg ''end'')) table_full))"
    using end_request_outcome [of table_full 1 ?a' "msg ''end''" "''x''"] a' g t o
    by (simp add: game_sockets_def)
  show ?thesis using 1 2 by simp
qed

section \<open>Recorded rooms stay in the store\<close>

text \<open>
  Rooms are never deleted and a connection records only rooms of the store, so on every
  run from the empty hub the room a connection records exists: the silent return of the
  end handler is never taken there.
\<close>

lemma rre_init: "recorded_rooms_exist init"
  by (simp add: recorded_rooms_exist_def init_def)

lemma rre_connection: "recorded_rooms_exist s \<Longrightarrow> recorded_rooms_exist (on_connection cid k s)"
  by (auto simp: recorded_rooms_exist_def on_connection_def)

lemma rre_create:
  "recorded_rooms_exist s \<Longrightarrow> recorded_rooms_exist (fst (handle_create fresh k c m s))"
  by (cases "normalizeColor (m_preferredColor m)")
     (auto simp: recorded_rooms_exist_def handle_create_def Let_def set_player_def)

lemma rre_join:
  "recorded_rooms_exist s \<Longrightarrow> recorded_rooms_exist (fst (handle_join k c m s))"
  by (auto simp: recorded_rooms_exist_def handle_join_def Let_def set_player_def
           split: option.splits color.splits prod.splits if_splits)

lemma rre_end:
  "recorded_rooms_exist s \<Longrightarrow> recorded_rooms_exist (fst (handle_end k c m s))"
  by (auto simp: recorded_rooms_exist_def handle_end_def Let_def split: option.splits)

lemma rre_move:
  "recorded_rooms_exist s \<Longrightarrow> recorded_rooms_exist (fst (handle_move k c m s))"
  by (auto simp: recorded_rooms_exist_def handle_move_def Let_def split: option.splits)

lemma rre_remove:
  "recorded_rooms_exist s \<Longrightarrow> recorded_rooms_exist (fst (removeClientFromGame c s))"
  by (auto simp: recorded_rooms_exist_def removeClientFromGame_def Let_def split: option.splits)

lemma rre_message:
  "recorded_rooms_exist s \<Longrightarrow> recorded_rooms_exist (fst (on_message fresh k inb s))"
  by (cases inb)
     (auto simp: on_message_def rre_create rre_join rre_end rre_move split: option.splits)

lemma rre_open: "recorded_rooms_exist (s\<lparr>open_sockets := X\<rparr>) = recorded_rooms_exist s"
  by (simp add: recorded_rooms_exist_def)

lemma rre_drop:
  "recorded_rooms_exist s \<Longrightarrow> recorded_rooms_exist (s\<lparr>clients := (clients s)(k := None)\<rparr>)"
  by (auto simp: recorded_rooms_exist_def)

lemma rre_close: "recorded_rooms_exist s \<Longrightarrow> recorded_rooms_exist (fst (on_close k s))"
proof (cases "clients s k")
  case None
  then show "recorded_rooms_exist s \<Longrightarrow> ?thesis" by (simp add: on_close_def)
next
  case (Some c)
  assume "recorded_rooms_exist s"
  then have "recorded_rooms_exist
               (fst (removeClientFromGame c (s\<lparr>open_sockets := open_sockets s - {k}\<rparr>)))"
    using rre_remove rre_open by blast
  then show ?thesis using Some
    by (simp add: on_close_def split: prod.splits) (metis fst_conv rre_drop)
qed

lemma rre_step: "recorded_rooms_exist s \<Longrightarrow> recorded_rooms_exist (fst (step i s))"
  by (cases i) (simp_all add: rre_connection rre_message rre_close)

lemma rre_run: "recorded_rooms_exist s \<Longrightarrow> recorded_rooms_exist (run is s)"
  by (induction "is" arbitrary: s) (simp_all add: rre_step)

lemma recorded_room_reachable:
  "clients (run is init) k = Some c \<Longrightarrow> cl_gameId c = Some gid \<Longrightarrow>
   games (run is init) gid \<noteq> None"
  using rre_run [OF rre_init, of "is"] unfolding recorded_rooms_exist_def by blast

section \<open>Moves\<close>

lemma game_sockets_fen_moves:
  "game_sockets (g\<lparr>g_fen := f, g_moves := ms\<rparr>) = game_sockets g"
  by (simp add: game_sockets_def)

lemma broadcast_games_update:
  "broadcast (s\<lparr>games := gs\<rparr>) g ev ex = broadcast s g ev ex"
  by (simp add: broadcast_def safeSend_def)

lemma broadcast_fen_moves:
  "broadcast s (g\<lparr>g_fen := f, g_moves := ms\<rparr>) ev ex = broadcast s g ev ex"
  by (simp add: broadcast_def game_sockets_fen_moves)

lemma handle_move_accept:
  assumes "cl_gameId c = Some gid" and "gid \<noteq> []" and "games s gid = Some g"
    and "cl_color c = Some (getActiveColorFromFEN (g_fen g))"
    and "m_move m = Some mv" and "mv_FEN mv = Some f" and "f \<noteq> []"
  shows "handle_move k c m s =
           (s\<lparr>games := (games s)(gid \<mapsto> g\<lparr>g_fen := f, g_moves := g_moves g @ [mv]\<rparr>)\<rparr>,
            broadcast s g (MoveEv (g_id g) mv f (getActiveColorFromFEN f)
                             (getActiveColorFromFEN (g_fen g))) None)"
  using assms
  by (simp add: handle_move_def truthy_def Let_def broadcast_games_update broadcast_fen_moves)

lemma handle_move_no_color:
  assumes "cl_color c = None"
  shows "handle_move k c m s = (s, safeSend s k (ErrorEv ''Join a game first''))"
  using assms by (simp add: handle_move_def)

lemma handle_move_wrong_turn:
  assumes "cl_gameId c = Some gid" and "gid \<noteq> []" and "games s gid = Some g"
    and "cl_color c = Some col" and "col \<noteq> getActiveColorFromFEN (g_fen g)"
  shows "handle_move k c m s = (s, safeSend s k (ErrorEv ''Not your turn''))"
  using assms by (auto simp add: handle_move_def truthy_def)

lemma handle_move_no_fen:
  assumes "cl_gameId c = Some gid" and "gid \<noteq> []" and "games s gid = Some g"
    and "cl_color c = Some (getActiveColorFromFEN (g_fen g))"
    and "m_move m = Some mv" and "\<not> truthy (mv_FEN mv)"
  shows "handle_move k c m s = (s, safeSend s k (ErrorEv ''Move is missing FEN''))"
  using assms by (auto simp add: handle_move_def truthy_def split: option.splits)

lemma table_full_a:
  "clients table_full 1 = Some \<lparr>cl_id = ''a'', cl_socket = 1, cl_name = None,
      cl_color = Some White, cl_gameId = Some ''g1'', cl_viewer = None\<rparr>"
  by (simp add: table_defs)

lemma table_full_g1:
  "games table_full ''g1'' =
     Some \<lparr>g_id = ''g1'', g_fen = START_FEN, g_status = Active,
           g_white = Some \<lparr>cl_id = ''a'', cl_socket = 1, cl_name = None,
                           cl_color = Some White, cl_gameId = None, cl_viewer = None\<rparr>,
           g_black = Some \<lparr>cl_id = ''b'', cl_socket = 2, cl_name = None,
                           cl_color = Some Black, cl_gameId = Some ''g1'',
                           cl_viewer = Some False\<rparr>,
           g_watchers = [], g_moves = [], g_result = None\<rparr>"
  by (simp add: table_defs)

lemma table_ended_a:
  "clients table_ended 1 = Some \<lparr>cl_id = ''a'', cl_socket = 1, cl_name = None,
      cl_color = Some White, cl_gameId = Some ''g1'', cl_viewer = None\<rparr>"
  by (simp add: table_defs table_ended_def)

lemma table_ended_g1:
  "games table_ended ''g1'' =
     Some \<lparr>g_id = ''g1'', g_fen = START_FEN, g_status = Ended,
           g_white = Some \<lparr>cl_id = ''a'', cl_socket = 1, cl_name = None,
                           cl_color = Some White, cl_gameId = None, cl_viewer = None\<rparr>,
           g_black = Some \<lparr>cl_id = ''b'', cl_socket = 2, cl_name = None,
                           cl_color = Some Black, cl_gameId = Some ''g1'',
                           cl_viewer = Some False\<rparr>,
           g_watchers = [3], g_moves = [], g_result = None\<rparr>"
  by (simp add: table_defs table_ended_def)

lemma start_white: "getActiveColorFromFEN START_FEN = White"
  by (simp add: getActiveColorFromFEN_def START_FEN_def at_index_def)

lemma e2e4_black:
  "getActiveColorFromFEN ''rnbqkbnr/pppppppp/8/8/4P3/8/PPPP1PPP/RNBQKBNR b KQkq e3 0 1'' = Black"
  by (simp add: getActiveColorFromFEN_def at_index_def)

lemma move_msgs:
  "isMoveMessage move_e2e4" "m_move move_e2e4 = Some e2e4"
  "mv_FEN e2e4 = Some ''rnbqkbnr/pppppppp/8/8/4P3/8/PPPP1PPP/RNBQKBNR b KQkq e3 0 1''"
  by (simp_all add: isMoveMessage_def move_e2e4_def msg_def e2e4_def)

text \<open>
  Claim C1, as the code has it.  The claim says a move is accepted whenever the sender
  sits on the colour to move, and that every other move message is answered with the
  not-your-turn error.  The handler has two more guards.  At the full table \<^verbatim>\<open>a\<close> sits on
  white and white is to move, but a move without a resulting position is answered with
  \<^verbatim>\<open>Move is missing FEN\<close> and the room stays as it was; and the observer \<^verbatim>\<open>c\<close> of the
  watched table, who has no colour, is answered with \<^verbatim>\<open>Join a game first\<close>.
\<close>

theorem move_guards_other_errors:
  "map_option (\<lambda>g. (map_option cl_id (g_white g), getActiveColorFromFEN (g_fen g)))
     (games table_full ''g1'') = Some (Some ''a'', White)
   \<and> map_option cl_id (clients table_full 1) = Some ''a''
   \<and> games (fst (on_message ''x'' 1 (Parsed move_no_fen) table_full)) ''g1''
       = games table_full ''g1''
   \<and> snd (on_message ''x'' 1 (Parsed move_no_fen) table_full)
       = [(1, ErrorEv ''Move is missing FEN'')]
   \<and> map_option (\<lambda>c. (cl_id c, cl_gameId c, cl_color c)) (clients table_watched 3)
       = Some (''c'', Some ''g1'', None)
   \<and> snd (on_message ''x'' 3 (Parsed move_e2e4) table_watched)
       = [(3, ErrorEv ''Join a game first'')]"
  by (simp add: table_defs move_e2e4_def move_no_fen_def e2e4_def start_white)

text \<open>
  Claim C1, amended.  Take a move message from a connection whose recorded room is in
  the store and whose recorded colour names exactly the seat it occupies there.  The
  move is accepted (the room's position replaced by the submitted one, the move record
  appended to the log, a move event with the next side to move and the mover's colour
  broadcast to the seats and observers) if and only if the connection occupies the seat
  of the side to move derived from the room's current position and the move carries a
  non-empty position.  Otherwise only the sender is answered, with \<^verbatim>\<open>Join a game first\<close>
  when it occupies no seat, \<^verbatim>\<open>Not your turn\<close> when it occupies the other seat, and
  \<^verbatim>\<open>Move is missing FEN\<close> when only the position is missing, and the hub state, so the
  room's position and move log, is unchanged.
\<close>

theorem move_accepted_iff:
  assumes "clients s k = Some c" and "isMoveMessage m" and "m_move m = Some mv"
    and "cl_gameId c = Some gid" and "gid \<noteq> []" and "games s gid = Some g"
    and "\<forall>col. occupies c g col \<longleftrightarrow> cl_color c = Some col"
  shows "if occupies c g (getActiveColorFromFEN (g_fen g)) \<and> truthy (mv_FEN mv)
         then \<exists>f. mv_FEN mv = Some f
                \<and> on_message fresh k (Parsed m) s =
                    (s\<lparr>games := (games s)(gid \<mapsto> g\<lparr>g_fen := f, g_moves := g_moves g @ [mv]\<rparr>)\<rparr>,
                     broadcast s g (MoveEv (g_id g) mv f (getActiveColorFromFEN f)
                                      (getActiveColorFromFEN (g_fen g))) None)
         else on_message fresh k (Parsed m) s =
                (s, safeSend s k
                      (ErrorEv (if \<forall>col. \<not> occupies c g col then ''Join a game first''
                                else if \<not> occupies c g (getActiveColorFromFEN (g_fen g))
                                then ''Not your turn''
                                else ''Move is missing FEN'')))"
proof -
  let ?turn = "getActiveColorFromFEN (g_fen g)"
  have om: "on_message fresh k (Parsed m) s = handle_move k c m s"
    using assms(1,2) by (rule on_message_move)
  have occ: "occupies c g ?turn \<longleftrightarrow> cl_color c = Some ?turn" using assms(7) by blast
  have none: "(\<forall>col. \<not> occupies c g col) \<longleftrightarrow> cl_color c = None"
    using assms(7) by (cases "cl_color c") auto
  show ?thesis
  proof (cases "occupies c g ?turn \<and> truthy (mv_FEN mv)")
    case True
    then obtain f where f: "mv_FEN mv = Some f" "f \<noteq> []"
      by (auto simp: truthy_def split: option.splits)
    have "handle_move k c m s =
           (s\<lparr>games := (games s)(gid \<mapsto> g\<lparr>g_fen := f, g_moves := g_moves g @ [mv]\<rparr>)\<rparr>,
            broadcast s g (MoveEv (g_id g) mv f (getActiveColorFromFEN f) ?turn) None)"
      using handle_move_accept [OF assms(4,5,6) _ assms(3) f] True occ by simp
    then show ?thesis using True f om by simp
  next
    case False
    show ?thesis
    proof (cases "cl_color c")
      case None
      then show ?thesis using False om none handle_move_no_color [of c k m s] by simp
    next
      case (Some col)
      show ?thesis
      proof (cases "col = ?turn")
        case True
        then have o: "occupies c g ?turn" using occ Some by simp
        then have nf: "\<not> truthy (mv_FEN mv)" using False by simp
        have "handle_move k c m s = (s, safeSend s k (ErrorEv ''Move is missing FEN''))"
          using handle_move_no_fen [OF assms(4,5,6) _ assms(3) nf] Some True by simp
        then show ?thesis using False om o none Some by auto
      next
        case ne: False
        then have o: "\<not> occupies c g ?turn" using occ Some by simp
        have "handle_move k c m s = (s, safeSend s k (ErrorEv ''Not your turn''))"
          using handle_move_wrong_turn [OF assms(4,5,6) Some ne] .
        then show ?thesis using om o none Some by auto
      qed
    qed
  qed
qed

theorem move_accepted_iff_witness:
  "fst (on_message ''x'' 1 (Parsed move_e2e4) table_full) =
     table_full\<lparr>games := (games table_full)(''g1'' \<mapsto>
        \<lparr>g_id = ''g1'',
         g_fen = ''rnbqkbnr/pppppppp/8/8/4P3/8/PPPP1PPP/RNBQKBNR b KQkq e3 0 1'',
         g_status = Active,
         g_white = Some \<lparr>cl_id = ''a'', cl_socket = 1, cl_name = None,
                         cl_color = Some White, cl_gameId = None, cl_viewer = None\<rparr>,
         g_black = Some \<lparr>cl_id = ''b'', cl_socket = 2, cl_name = None,
                         cl_color = Some Black, cl_gameId = Some ''g1'',
                         cl_viewer = Some False\<rparr>,
         g_watchers = [], g_moves = [e2e4], g_result = None\<rparr>)\<rparr>
   \<and> snd (on_message ''x'' 1 (Parsed move_e2e4) table_full) =
       [(1, MoveEv ''g1'' e2e4
              ''rnbqkbnr/pppppppp/8/8/4P3/8/PPPP1PPP/RNBQKBNR b KQkq e3 0 1'' Black White),
        (2, MoveEv ''g1'' e2e4
              ''rnbqkbnr/pppppppp/8/8/4P3/8/PPPP1PPP/RNBQKBNR b KQkq e3 0 1'' Black White)]"
proof -
  let ?a = "\<lparr>cl_id = ''a'', cl_socket = 1, cl_name = None,
      cl_color = Some White, cl_gameId = Some ''g1'', cl_viewer = None\<rparr>"
  let ?g = "\<lparr>g_id = ''g1'', g_fen = START_FEN, g_status = Active,
           g_white = Some \<lparr>cl_id = ''a'', cl_socket = 1, cl_name = None,
                           cl_color = Some White, cl_gameId = None, cl_viewer = None\<rparr>,
           g_black = Some \<lparr>cl_id = ''b'', cl_socket = 2, cl_name = None,
                           cl_color = Some Black, cl_gameId = Some ''g1'',
                           cl_viewer = Some False\<rparr>,
           g_watchers = [], g_moves = [], g_result = None\<rparr>"
  have cons: "\<forall>col. occupies ?a ?g col \<longleftrightarrow> cl_color ?a = Some col"
  proof
    fix col show "occupies ?a ?g col \<longleftrightarrow> cl_color ?a = Some col"
      by (cases col) (simp_all add: occupies_def players_def)
  qed
  have occ: "occupies ?a ?g White" by (simp add: occupies_def players_def)
  have o: "open_sockets table_full = {3, 2, 1}" by (simp add: table_defs)
  have "on_message ''x'' 1 (Parsed move_e2e4) table_full =
          (table_full\<lparr>games := (games table_full)(''g1'' \<mapsto>
              ?g\<lparr>g_fen := ''rnbqkbnr/pppppppp/8/8/4P3/8/PPPP1PPP/RNBQKBNR b KQkq e3 0 1'',
                  g_moves := g_moves ?g @ [e2e4]\<rparr>)\<rparr>,
           broadcast table_full ?g
             (MoveEv (g_id ?g) e2e4
                ''rnbqkbnr/pppppppp/8/8/4P3/8/PPPP1PPP/RNBQKBNR b KQkq e3 0 1''
                (getActiveColorFromFEN
                   ''rnbqkbnr/pppppppp/8/8/4P3/8/PPPP1PPP/RNBQKBNR b KQkq e3 0 1'')
                (getActiveColorFromFEN (g_fen ?g))) None)"
    using move_accepted_iff [OF table_full_a move_msgs(1) move_msgs(2) _ _ table_full_g1 cons,
            of "''x''"] occ
    by (simp add: start_white move_msgs(3) truthy_def)
  then show ?thesis
    by (simp add: start_white e2e4_black broadcast_def safeSend_def game_sockets_def o)
qed

section \<open>Ended rooms\<close>

text \<open>
  Claim C3, as the code has it.  The claim says every move on an ended room is rejected
  with an error.  The move handler never reads the status: at the ended table \<^verbatim>\<open>a\<close>, on
  white with white to move, submits a move; the position is replaced, the move is
  logged and the move event goes to both seats and the observer.
\<close>

theorem move_on_ended_room_accepted:
  "map_option g_status (games table_ended ''g1'') = Some Ended
   \<and> map_option (\<lambda>g. (g_fen g, g_moves g, g_status g))
       (games (fst (on_message ''x'' 1 (Parsed move_e2e4) table_ended)) ''g1'')
     = Some (''rnbqkbnr/pppppppp/8/8/4P3/8/PPPP1PPP/RNBQKBNR b KQkq e3 0 1'', [e2e4], Ended)
   \<and> snd (on_message ''x'' 1 (Parsed move_e2e4) table_ended) =
       [(1, MoveEv ''g1'' e2e4
              ''rnbqkbnr/pppppppp/8/8/4P3/8/PPPP1PPP/RNBQKBNR b KQkq e3 0 1'' Black White),
        (2, MoveEv ''g1'' e2e4
              ''rnbqkbnr/pppppppp/8/8/4P3/8/PPPP1PPP/RNBQKBNR b KQkq e3 0 1'' Black White),
        (3, MoveEv ''g1'' e2e4
              ''rnbqkbnr/pppppppp/8/8/4P3/8/PPPP1PPP/RNBQKBNR b KQkq e3 0 1'' Black White)]"
  by (simp add: table_defs table_ended_def move_e2e4_def e2e4_def start_white e2e4_black)

text \<open>
  Claim C3, amended.  On a room whose status is ended a move message is handled as on
  any other room.  It is rejected with an error event to the sender, the hub state and
  so the room's position and move log unchanged, exactly when the sender's recorded
  colour is not the side to move of the room's position or the move carries no
  position; otherwise it is accepted: position replaced, move appended, move event
  broadcast.  In both cases the status stays ended.
\<close>

theorem move_on_ended_room:
  assumes "clients s k = Some c" and "isMoveMessage m" and "m_move m = Some mv"
    and "cl_gameId c = Some gid" and "gid \<noteq> []" and "games s gid = Some g"
    and "g_status g = Ended"
  shows "(if cl_color c = Some (getActiveColorFromFEN (g_fen g)) \<and> truthy (mv_FEN mv)
          then \<exists>f. mv_FEN mv = Some f
                 \<and> on_message fresh k (Parsed m) s =
                     (s\<lparr>games := (games s)(gid \<mapsto> g\<lparr>g_fen := f, g_moves := g_moves g @ [mv]\<rparr>)\<rparr>,
                      broadcast s g (MoveEv (g_id g) mv f (getActiveColorFromFEN f)
                                       (getActiveColorFromFEN (g_fen g))) None)
          else \<exists>e. on_message fresh k (Parsed m) s = (s, safeSend s k (ErrorEv e)))
         \<and> map_option g_status (games (fst (on_message fresh k (Parsed m) s)) gid) = Some Ended"
proof -
  let ?turn = "getActiveColorFromFEN (g_fen g)"
  have om: "on_message fresh k (Parsed m) s = handle_move k c m s"
    using assms(1,2) by (rule on_message_move)
  show ?thesis
  proof (cases "cl_color c = Some ?turn \<and> truthy (mv_FEN mv)")
    case True
    then obtain f where f: "mv_FEN mv = Some f" "f \<noteq> []"
      by (auto simp: truthy_def split: option.splits)
    have "handle_move k c m s =
           (s\<lparr>games := (games s)(gid \<mapsto> g\<lparr>g_fen := f, g_moves := g_moves g @ [mv]\<rparr>)\<rparr>,
            broadcast s g (MoveEv (g_id g) mv f (getActiveColorFromFEN f) ?turn) None)"
      using handle_move_accept [OF assms(4,5,6) _ assms(3) f] True by simp
    then show ?thesis using True f om assms(7) by simp
  next
    case False
    have "\<exists>e. handle_move k c m s = (s, safeSend s k (ErrorEv e))"
    proof (cases "cl_color c")
      case None
      then show ?thesis using handle_move_no_color [of c k m s] by blast
    next
      case (Some col)
      show ?thesis
      proof (cases "col = ?turn")
        case True
        then have nf: "\<not> truthy (mv_FEN mv)" using False Some by simp
        show ?thesis
          using handle_move_no_fen [OF assms(4,5,6) _ assms(3) nf] Some True by blast
      next
        case ne: False
        show ?thesis using handle_move_wrong_turn [OF assms(4,5,6) Some ne] by blast
      qed
    qed
    then show ?thesis using False om assms(6,7) by auto
  qed
qed

theorem move_on_ended_room_witness:
  "map_option g_status
      (games (fst (on_message ''x'' 1 (Parsed move_e2e4) table_ended)) ''g1'') = Some Ended
   \<and> map_option g_status
      (games (fst (on_message ''x'' 2 (Parsed move_e2e4) table_ended)) ''g1'') = Some Ended"
proof -
  have b: "clients table_ended 2 = Some \<lparr>cl_id = ''b'', cl_socket = 2, cl_name = None,
      cl_color = Some Black, cl_gameId = Some ''g1'', cl_viewer = Some False\<rparr>"
    by (simp add: table_defs table_ended_def)
  show ?thesis
    using move_on_ended_room [OF table_ended_a move_msgs(1) move_msgs(2) _ _ table_ended_g1,
            of "''x''"]
          move_on_ended_room [OF b move_msgs(1) move_msgs(2) _ _ table_ended_g1, of "''x''"]
    by simp
qed

text \<open>
  Claim C2, on the code.  The claim says that no join, leave or move takes an ended room
  back to waiting or active.  Both the leave path and the seating join recompute the
  status from the seats alone: at the ended table the observer's disconnect makes the
  room active again, the disconnect of the black seat makes it waiting, and a new
  connection that then joins the free seat makes it active, while the stored result
  stays on the room.
\<close>

theorem ended_status_reverts:
  "map_option g_status (games table_ended ''g1'') = Some Ended
   \<and> map_option g_status (games (run [Close 3] table_ended) ''g1'') = Some Active
   \<and> map_option g_status (games (run [Close 2] table_ended) ''g1'') = Some Waiting
   \<and> map_option g_status
       (games (run [Close 2, Connect ''d'' 4, Message ''x'' 4 (Parsed join_g1)] table_ended) ''g1'')
     = Some Active
   \<and> map_option g_result (games table_ended ''g1'')
     = map_option g_result (games (run [Close 3] table_ended) ''g1'')"
  by (simp add: table_defs table_ended_def)

section \<open>Closed transports\<close>

text \<open>
  Claim C6, on the code.  The claim says that once a transport has closed no seat of any
  room refers to that connection.  The close handler vacates only the room the
  connection recorded last: \<^verbatim>\<open>a\<close> creates \<^verbatim>\<open>g1\<close>, creates \<^verbatim>\<open>g2\<close> and closes; the white
  seat of \<^verbatim>\<open>g2\<close> is vacated, the white seat of \<^verbatim>\<open>g1\<close> still holds \<^verbatim>\<open>a\<close> and its
  socket, which is neither open nor connected any more.
\<close>

theorem closed_connection_keeps_seat:
  "map_option (\<lambda>g. map_option (\<lambda>p. (cl_id p, cl_socket p)) (g_white g))
      (games two_rooms_closed ''g1'') = Some (Some (''a'', 1))
   \<and> map_option g_white (games two_rooms_closed ''g2'') = Some None
   \<and> clients two_rooms_closed 1 = None
   \<and> 1 \<notin> open_sockets two_rooms_closed"
  by (simp add: table_defs create_g2_def two_rooms_closed_def)

section \<open>Joins on a fresh room\<close>

lemma assign_color_None:
  "assign_color g p = None \<Longrightarrow> g_white g \<noteq> None \<and> g_black g \<noteq> None"
  by (simp add: assign_color_def players_def split: if_splits)

lemma handle_join_preserves:
  assumes "games s gid = Some g" and "status_matches_seats g"
  shows "\<exists>g'. games (fst (handle_join k c m s)) gid = Some g' \<and> status_matches_seats g'"
proof (cases "m_gameId m")
  case None
  then show ?thesis using assms by (simp add: handle_join_def)
next
  case (Some key)
  show ?thesis
  proof (cases "games s key")
    case None
    then show ?thesis using assms Some by (simp add: handle_join_def)
  next
    case (Some g0)
    note g0 = this
    show ?thesis
    proof (cases "key = gid")
      case False
      then show ?thesis using assms g0 \<open>m_gameId m = Some key\<close>
        by (simp add: handle_join_def Let_def split: option.splits prod.splits)
    next
      case True
      then have gg: "g0 = g" using assms(1) g0 by simp
      show ?thesis
      proof (cases "assign_color g (normalizeColor (m_preferredColor m))")
        case None
        then have "g_white g \<noteq> None \<and> g_black g \<noteq> None" by (rule assign_color_None)
        then show ?thesis using assms g0 gg True None \<open>m_gameId m = Some key\<close>
          by (simp add: handle_join_def Let_def status_matches_seats_def)
      next
        case (Some col)
        then show ?thesis using assms g0 gg True \<open>m_gameId m = Some key\<close>
          by (cases col)
             (simp_all add: handle_join_def Let_def status_matches_seats_def both_seated_def
                set_player_def)
      qed
    qed
  qed
qed

lemma join_input_preserves:
  assumes "join_input i" and "games s gid = Some g" and "status_matches_seats g"
  shows "\<exists>g'. games (fst (step i s)) gid = Some g' \<and> status_matches_seats g'"
proof (cases i)
  case (Connect cid k)
  then show ?thesis using assms by (simp add: on_connection_def)
next
  case (Message fresh k inb)
  show ?thesis
  proof (cases inb)
    case Unparseable
    then show ?thesis using assms Message by simp
  next
    case (Parsed m)
    then have j: "m_type m = Some ''join''" using assms(1) Message by simp
    show ?thesis
    proof (cases "clients s k")
      case None
      then show ?thesis using assms Message Parsed by (simp add: on_message_def)
    next
      case (Some c)
      then have "step i s = handle_join k c m s"
        using Message Parsed j by (simp add: on_message_join)
      then show ?thesis using handle_join_preserves [OF assms(2,3)] by simp
    qed
  qed
next
  case (Close k)
  then show ?thesis using assms by simp
qed

lemma run_joins_preserve:
  assumes "\<forall>i \<in> set js. join_input i" and "games s gid = Some g" and "status_matches_seats g"
  shows "\<exists>g'. games (run js s) gid = Some g' \<and> status_matches_seats g'"
  using assms
proof (induction js arbitrary: s g)
  case Nil
  then show ?case by simp
next
  case (Cons i js)
  then have "join_input i" by simp
  from join_input_preserves [OF this Cons.prems(2,3)]
  obtain g' where "games (fst (step i s)) gid = Some g'" and "status_matches_seats g'" by blast
  then show ?case using Cons.IH [of "fst (step i s)" g'] Cons.prems(1) by simp
qed

lemma created_room_matches:
  assumes "clients s k = Some c" and "m_type m = Some ''create''"
    and "games s (create_id fresh m) = None"
  shows "\<exists>g. games (fst (on_message fresh k (Parsed m) s)) (create_id fresh m) = Some g
             \<and> status_matches_seats g \<and> g_status g = Waiting \<and> g_moves g = []
             \<and> g_fen g = START_FEN"
  using assms
  by (cases "normalizeColor (m_preferredColor m)")
     (simp_all add: on_message_create handle_create_fresh Let_def status_matches_seats_def
        set_player_def)

text \<open>
  Claim C4.  Take a room that a create message has just made, and apply any sequence of
  join operations to the hub: join messages of any connections, for this or any other
  room, and the new connections they need.  After the sequence the room is still in the
  store and its status is active if and only if both its white and its black seat are
  occupied.
\<close>

theorem joined_room_active_iff_both_seated:
  assumes "clients s k = Some c" and "m_type m = Some ''create''"
    and "games s (create_id fresh m) = None"
    and "\<forall>i \<in> set js. join_input i"
  shows "\<exists>g. games (run js (fst (on_message fresh k (Parsed m) s))) (create_id fresh m) = Some g
             \<and> (g_status g = Active \<longleftrightarrow> g_white g \<noteq> None \<and> g_black g \<noteq> None)"
proof -
  obtain g0 where "games (fst (on_message fresh k (Parsed m) s)) (create_id fresh m) = Some g0"
    and "status_matches_seats g0"
    using created_room_matches [OF assms(1,2,3)] by blast
  from run_joins_preserve [OF assms(4) this]
  show ?thesis by (simp add: status_matches_seats_def)
qed



theorem joined_room_active_iff_both_seated_witness:
  "(\<exists>g. games (run [Message ''x2'' 2 (Parsed join_g1), Message ''x3'' 3 (Parsed join_g1)]
                 (fst (on_message ''x1'' 1 (Parsed create_g1) lobby))) ''g1'' = Some g
        \<and> (g_status g = Active \<longleftrightarrow> g_white g \<noteq> None \<and> g_black g \<noteq> None))
   \<and> map_option (\<lambda>g. (g_status g, g_white g \<noteq> None, g_black g \<noteq> None))
        (games (run [Message ''x2'' 2 (Parsed join_g1), Message ''x3'' 3 (Parsed join_g1)]
                 (fst (on_message ''x1'' 1 (Parsed create_g1) lobby))) ''g1'')
      = Some (Active, True, True)"
proof -
  let ?a = "\<lparr>cl_id = ''a'', cl_socket = 1, cl_name = None, cl_color = None,
             cl_gameId = None, cl_viewer = None\<rparr>"
  have a: "clients lobby 1 = Some ?a" by (simp add: table_defs)
  have c: "m_type create_g1 = Some ''create''" by (simp add: table_defs)
  have i: "create_id ''x1'' create_g1 = ''g1''" by (simp add: table_defs)
  have n: "games lobby (create_id ''x1'' create_g1) = None" by (simp add: table_defs)
  have j: "\<forall>i \<in> set [Message ''x2'' 2 (Parsed join_g1), Message ''x3'' 3 (Parsed join_g1)].
             join_input i"
    by (simp add: table_defs)
  have T: "\<exists>g. games (run [Message ''x2'' 2 (Parsed join_g1), Message ''x3'' 3 (Parsed join_g1)]
                 (fst (on_message ''x1'' 1 (Parsed create_g1) lobby))) ''g1'' = Some g
        \<and> (g_status g = Active \<longleftrightarrow> g_white g \<noteq> None \<and> g_black g \<noteq> None)"
    using joined_room_active_iff_both_seated [OF a c n j] unfolding i .
  have E: "map_option (\<lambda>g. (g_status g, g_white g \<noteq> None, g_black g \<noteq> None))
        (games (run [Message ''x2'' 2 (Parsed join_g1), Message ''x3'' 3 (Parsed join_g1)]
                 (fst (on_message ''x1'' 1 (Parsed create_g1) lobby))) ''g1'')
      = Some (Active, True, True)"
    by (simp add: table_defs)
  from T E show ?thesis by (rule conjI)
qed

section \<open>Matchmaking\<close>

lemma map_of_map_set: "map_of (map_set k v ps) k = Some v"
  by (induction ps) auto

lemma handle_queue_first:
  assumes "matchmakingQueue h = []"
  shows "handle_queue now col fresh k c m h =
           (h\<lparr>matchmakingQueue := [\<lparr>qe_clientId = cl_id c, qe_socket = k,
                                     qe_playerName = m_playerName m, qe_timestamp = now\<rparr>],
              hub_clients := (hub_clients h)(k \<mapsto> c\<lparr>cl_gameId := None,
                                                      cl_inQueue := Some True\<rparr>)\<rparr>,
            hub_safeSend h k (QueueStatus 1 True))"
  using assms by (simp add: handle_queue_def Let_def hub_safeSend_def)


lemma other_color_neq: "other_color col \<noteq> col"
  by (cases col) (simp_all add: other_color_def)

lemma handle_queue_second:
  assumes "matchmakingQueue h = [e1]"
  shows "handle_queue now col fresh k c m h =
     (let e2 = \<lparr>qe_clientId = cl_id c, qe_socket = k, qe_playerName = m_playerName m,
                qe_timestamp = now\<rparr>;
          g = set_player (other_color col) (Some (queue_seat e2 (other_color col) fresh))
                (set_player col (Some (queue_seat e1 col fresh))
                   \<lparr>g_id = fresh, g_fen = START_FEN, g_status = Active,
                    g_white = None, g_black = None, g_watchers = [], g_moves = [],
                    g_result = None\<rparr>);
          h2 = h\<lparr>matchmakingQueue := [],
                 hub_clients := (hub_clients h)(k \<mapsto> c\<lparr>cl_gameId := None,
                                                         cl_inQueue := Some True\<rparr>),
                 hub_games := map_set fresh g (hub_games h)\<rparr>
      in (h2, hub_safeSend h k (QueueStatus 2 True)
              @ hub_safeSend h (qe_socket e1)
                  (Matched fresh col START_FEN Active (buildPlayers g) True)
              @ hub_safeSend h k
                  (Matched fresh (other_color col) START_FEN Active (buildPlayers g) True)
              @ broadcastGamesList h2))"
  using assms by (cases h) (simp add: handle_queue_def Let_def hub_safeSend_def)

lemma queue_game_seats:
  "g = set_player (other_color col) (Some p2)
         (set_player col (Some p1)
            \<lparr>g_id = fresh, g_fen = START_FEN, g_status = Active,
             g_white = None, g_black = None, g_watchers = [], g_moves = [],
             g_result = None\<rparr>)
   \<Longrightarrow> g_status g = Active \<and> players g col = Some p1 \<and> players g (other_color col) = Some p2"
  by (cases col) (simp_all add: set_player_def players_def other_color_def)

text \<open>
  Claim C7, as the code has it.  The claim says two clients that each send a queue
  message are matched into a new active room.  The hub of \<^verbatim>\<open>server/game-server.js\<close> has
  no queue: each of the two queue messages falls through to the last line of the
  dispatch, its sender gets \<^verbatim>\<open>Unknown message type\<close>, and the hub, which holds no room,
  is unchanged.
\<close>

theorem queue_unknown_in_game_server:
  "snd (on_message ''x1'' 1 (Parsed (msg ''queue'')) lobby)
     = [(1, ErrorEv ''Unknown message type'')]
   \<and> fst (on_message ''x1'' 1 (Parsed (msg ''queue'')) lobby) = lobby
   \<and> snd (on_message ''x2'' 2 (Parsed (msg ''queue'')) lobby)
     = [(2, ErrorEv ''Unknown message type'')]
   \<and> fst (on_message ''x2'' 2 (Parsed (msg ''queue'')) lobby) = lobby
   \<and> games lobby = Map.empty"
proof -
  have a: "clients lobby 1 \<noteq> None" "clients lobby 2 \<noteq> None"
    and o: "open_sockets lobby = {3, 2, 1}" and g: "games lobby = Map.empty"
    by (simp_all add: table_defs)
  show ?thesis using a o g
    by (auto simp add: on_message_def isMoveMessage_def msg_def safeSend_def)
qed

text \<open>
  Claim C7, amended.  In the hub variant with a matchmaking queue: when two distinct
  connections with open sockets each send a queue message while nobody else waits, the
  first is told its position 1, and on the second's message the two are matched: the
  second is told position 2, each of the two is sent a matched event naming the same
  new room identifier, the first with the colour drawn and the second with the other
  colour, the queue is empty again, and the new room is stored in active status with
  the first on the drawn colour and the second on the other.  In
  \<^verbatim>\<open>server/game-server.js\<close> there is no matchmaking: a queue message is answered with
  \<^verbatim>\<open>Unknown message type\<close> and changes nothing.
\<close>

theorem queue_pair_matched:
  assumes "matchmakingQueue h = []"
    and "hub_clients h k1 = Some c1" and "hub_clients h k2 = Some c2" and "k1 \<noteq> k2"
    and "k1 \<in> hub_open h" and "k2 \<in> hub_open h"
  shows "(\<exists>h1 h2 g.
            hub_on_queue t1 col1 id1 k1 m1 h = (h1, [(k1, QueueStatus 1 True)])
          \<and> hub_on_queue t2 col fresh k2 m2 h1 =
              (h2, (k2, QueueStatus 2 True)
                   # (k1, Matched fresh col START_FEN Active (buildPlayers g) True)
                   # (k2, Matched fresh (other_color col) START_FEN Active (buildPlayers g) True)
                   # broadcastGamesList h2)
          \<and> other_color col \<noteq> col
          \<and> matchmakingQueue h2 = []
          \<and> map_of (hub_games h2) fresh = Some g \<and> g_status g = Active
          \<and> map_option cl_id (players g col) = Some (cl_id c1)
          \<and> map_option cl_id (players g (other_color col)) = Some (cl_id c2))
       \<and> (\<forall>s k c m x. clients s k = Some c \<and> m_type m = Some ''queue'' \<longrightarrow>
             on_message x k (Parsed m) s = (s, safeSend s k (ErrorEv ''Unknown message type'')))"
proof (rule conjI)
  let ?e1 = "\<lparr>qe_clientId = cl_id c1, qe_socket = k1, qe_playerName = m_playerName m1,
               qe_timestamp = t1\<rparr>"
  let ?e2 = "\<lparr>qe_clientId = cl_id c2, qe_socket = k2, qe_playerName = m_playerName m2,
               qe_timestamp = t2\<rparr>"
  let ?h1 = "h\<lparr>matchmakingQueue := [?e1],
               hub_clients := (hub_clients h)(k1 \<mapsto> c1\<lparr>cl_gameId := None,
                                                        cl_inQueue := Some True\<rparr>)\<rparr>"
  let ?g = "set_player (other_color col) (Some (queue_seat ?e2 (other_color col) fresh))
              (set_player col (Some (queue_seat ?e1 col fresh))
                 \<lparr>g_id = fresh, g_fen = START_FEN, g_status = Active,
                  g_white = None, g_black = None, g_watchers = [], g_moves = [],
                  g_result = None\<rparr>)"
  let ?h2 = "?h1\<lparr>matchmakingQueue := [],
                hub_clients := (hub_clients ?h1)(k2 \<mapsto> c2\<lparr>cl_gameId := None,
                                                          cl_inQueue := Some True\<rparr>),
                hub_games := map_set fresh ?g (hub_games ?h1)\<rparr>"
  have s1: "hub_on_queue t1 col1 id1 k1 m1 h = (?h1, [(k1, QueueStatus 1 True)])"
    using assms(1,2,5) by (simp add: hub_on_queue_def handle_queue_first hub_safeSend_def)
  have q1: "matchmakingQueue ?h1 = [?e1]" by simp
  have c2: "hub_clients ?h1 k2 = Some c2" using assms(3,4) by simp
  have o: "k1 \<in> hub_open ?h1" "k2 \<in> hub_open ?h1" using assms(5,6) by simp_all
  have s2: "hub_on_queue t2 col fresh k2 m2 ?h1 =
              (?h2, (k2, QueueStatus 2 True)
                   # (k1, Matched fresh col START_FEN Active (buildPlayers ?g) True)
                   # (k2, Matched fresh (other_color col) START_FEN Active (buildPlayers ?g) True)
                   # broadcastGamesList ?h2)"
    using c2 o handle_queue_second [OF q1, of t2 col fresh k2 c2 m2]
    by (simp add: hub_on_queue_def Let_def hub_safeSend_def)
  have g: "g_status ?g = Active \<and> players ?g col = Some (queue_seat ?e1 col fresh)
           \<and> players ?g (other_color col) = Some (queue_seat ?e2 (other_color col) fresh)"
    by (rule queue_game_seats) simp
  have m: "map_of (hub_games ?h2) fresh = Some ?g" by (simp add: map_of_map_set)
  show "\<exists>h1 h2 g.
            hub_on_queue t1 col1 id1 k1 m1 h = (h1, [(k1, QueueStatus 1 True)])
          \<and> hub_on_queue t2 col fresh k2 m2 h1 =
              (h2, (k2, QueueStatus 2 True)
                   # (k1, Matched fresh col START_FEN Active (buildPlayers g) True)
                   # (k2, Matched fresh (other_color col) START_FEN Active (buildPlayers g) True)
                   # broadcastGamesList h2)
          \<and> other_color col \<noteq> col
          \<and> matchmakingQueue h2 = []
          \<and> map_of (hub_games h2) fresh = Some g \<and> g_status g = Active
          \<and> map_option cl_id (players g col) = Some (cl_id c1)
          \<and> map_option cl_id (players g (other_color col)) = Some (cl_id c2)"
    apply (rule exI [of _ ?h1], rule exI [of _ ?h2], rule exI [of _ ?g])
    apply (intro conjI)
           apply (rule s1)
          apply (rule s2)
         apply (rule other_color_neq)
        apply simp
       apply (rule m)
      apply (simp only: g)
     apply (simp only: g, simp add: queue_seat_def)
    apply (simp only: g, simp add: queue_seat_def)
    done
next
  show "\<forall>s k c m x. clients s k = Some c \<and> m_type m = Some ''queue'' \<longrightarrow>
          on_message x k (Parsed m) s = (s, safeSend s k (ErrorEv ''Unknown message type''))"
    by (simp add: on_message_def isMoveMessage_def)
qed

theorem queue_pair_matched_witness:
  "snd (hub_on_queue 10 Black ''r0'' 1 (msg ''queue'') hub_lobby) = [(1, QueueStatus 1 True)]
   \<and> (\<exists>g r. snd (hub_on_queue 11 White ''r1'' 2 (msg ''queue'')
                   (fst (hub_on_queue 10 Black ''r0'' 1 (msg ''queue'') hub_lobby)))
            = (2, QueueStatus 2 True)
              # (1, Matched ''r1'' White START_FEN Active (buildPlayers g) True)
              # (2, Matched ''r1'' Black START_FEN Active (buildPlayers g) True) # r
          \<and> map_option cl_id (g_white g) = Some ''a''
          \<and> map_option cl_id (g_black g) = Some ''b'')
   \<and> on_message ''x'' 1 (Parsed (msg ''queue'')) lobby
       = (lobby, safeSend lobby 1 (ErrorEv ''Unknown message type''))"
proof -
  let ?a = "\<lparr>cl_id = ''a'', cl_socket = 1, cl_name = None, cl_color = None, cl_gameId = None,
           cl_viewer = None, cl_inQueue = None, cl_tempSlot = None\<rparr>"
  let ?b = "\<lparr>cl_id = ''b'', cl_socket = 2, cl_name = None, cl_color = None, cl_gameId = None,
           cl_viewer = None, cl_inQueue = None, cl_tempSlot = None\<rparr>"
  have q: "matchmakingQueue hub_lobby = []"
    and a: "hub_clients hub_lobby 1 = Some ?a" and b: "hub_clients hub_lobby 2 = Some ?b"
    and o: "1 \<in> hub_open hub_lobby" "2 \<in> hub_open hub_lobby"
    by (simp_all add: hub_lobby_def hub_on_connection_def hub_init_def)
  have ne: "(1::nat) \<noteq> 2" by simp
  note T = queue_pair_matched [OF q a b ne o, of 10 Black "''r0''" "msg ''queue''" 11 White
             "''r1''" "msg ''queue''"]
  from T obtain h1 h2 g where
    s1: "hub_on_queue 10 Black ''r0'' 1 (msg ''queue'') hub_lobby = (h1, [(1, QueueStatus 1 True)])"
    and s2: "hub_on_queue 11 White ''r1'' 2 (msg ''queue'') h1 =
              (h2, (2, QueueStatus 2 True)
                   # (1, Matched ''r1'' White START_FEN Active (buildPlayers g) True)
                   # (2, Matched ''r1'' (other_color White) START_FEN Active (buildPlayers g) True)
                   # broadcastGamesList h2)"
    and w: "map_option cl_id (players g White) = Some (cl_id ?a)"
    and bl: "map_option cl_id (players g (other_color White)) = Some (cl_id ?b)"
    by blast
  have A: "on_message ''x'' 1 (Parsed (msg ''queue'')) lobby
       = (lobby, safeSend lobby 1 (ErrorEv ''Unknown message type''))"
  proof -
    have "clients lobby 1 = Some \<lparr>cl_id = ''a'', cl_socket = 1, cl_name = None, cl_color = None,
             cl_gameId = None, cl_viewer = None\<rparr> \<and> m_type (msg ''queue'') = Some ''queue''"
      by (simp add: table_defs)
    then show ?thesis using T by blast
  qed
  have B: "\<exists>g r. snd (hub_on_queue 11 White ''r1'' 2 (msg ''queue'')
                   (fst (hub_on_queue 10 Black ''r0'' 1 (msg ''queue'') hub_lobby)))
            = (2, QueueStatus 2 True)
              # (1, Matched ''r1'' White START_FEN Active (buildPlayers g) True)
              # (2, Matched ''r1'' Black START_FEN Active (buildPlayers g) True) # r
          \<and> map_option cl_id (g_white g) = Some ''a''
          \<and> map_option cl_id (g_black g) = Some ''b''"
    apply (rule exI [of _ g], rule exI [of _ "broadcastGamesList h2"])
    using s1 s2 w bl by (simp add: other_color_def players_def)
  show ?thesis using s1 A B by simp
qed

end
